theory Spec2Isabelle
  imports Complex_Main "HOL-Library.Word"
begin

section \<open>Machine types\<close>

text \<open>
  \<^verbatim>\<open>size_t\<close> is an unsigned 64-bit integer: subtraction and multiplication wrap around,
  comparisons are unsigned.  \<^verbatim>\<open>v.size()\<close> of a \<^verbatim>\<open>std::vector\<close> is the length of the
  list that models the vector, read as a \<^verbatim>\<open>size_t\<close>.
\<close>

type_synonym size_t = "64 word"

definition vsize :: "'a list \<Rightarrow> size_t" where
  "vsize v = of_nat (length v)"

section \<open>Settings (include/settings.h)\<close>

text \<open>
  Modelled from the spec: the enumerations of \<^verbatim>\<open>scoring/types.h\<close>, \<^verbatim>\<open>samplers/types.h\<close>,
  \<^verbatim>\<open>local_optimization/types.h\<close> and \<^verbatim>\<open>termination/types.h\<close> are not part of the sources
  at hand; their enumerators are the option lists of the settings section of the
  specification.  The constructors carry the enumeration as a prefix because the
  enumerations share enumerator names.
\<close>

datatype ScoringType = Scoring_MSAC | Scoring_MAGSAC

datatype SamplerType = Sampler_Uniform | Sampler_PROSAC | Sampler_NeighborhoodGuided

datatype LocalOptimizationType = LO_None | LO_NestedRANSAC | LO_IRLS

datatype TerminationType = Termination_RANSAC | Termination_PROSAC

text \<open>
  \<^verbatim>\<open>struct LocalOptimizationSettings\<close>.  The fields are called \<^verbatim>\<open>maxIterations\<close> and
  \<^verbatim>\<open>sampleSizeMultiplier\<close> in the source; they carry a prefix here because the optimizer
  class below has members of the same names.
\<close>

record LocalOptimizationSettings =
  lo_maxIterations :: size_t
  lo_sampleSizeMultiplier :: size_t

text \<open>The default member initializers of \<^verbatim>\<open>LocalOptimizationSettings\<close>.\<close>

definition LocalOptimizationSettings_default :: LocalOptimizationSettings where
  "LocalOptimizationSettings_default =
     \<lparr>lo_maxIterations = 50, lo_sampleSizeMultiplier = 7\<rparr>"

text \<open>
  \<^verbatim>\<open>struct RANSACSettings\<close>.  The two \<^verbatim>\<open>double\<close> members hold the value of the decimal
  literal that initializes them.  \<^verbatim>\<open>maxIterations\<close> of the source is \<open>rs_maxIterations\<close>
  and \<^verbatim>\<open>sampler\<close> is \<open>samplerType\<close>, because the optimizer below uses both names.
\<close>

record RANSACSettings =
  minIterations :: size_t
  rs_maxIterations :: size_t
  coreNumber :: size_t
  inlierThreshold :: real
  confidence :: real
  scoring :: ScoringType
  samplerType :: SamplerType
  localOptimization :: LocalOptimizationType
  finalOptimization :: LocalOptimizationType
  terminationCriterion :: TerminationType
  localOptimizationSettings :: LocalOptimizationSettings
  finalOptimizationSettings :: LocalOptimizationSettings

definition RANSACSettings_default :: RANSACSettings where
  "RANSACSettings_default =
     \<lparr>minIterations = 1000,
      rs_maxIterations = 5000,
      coreNumber = 4,
      inlierThreshold = 1.5,
      confidence = 0.99,
      scoring = Scoring_MAGSAC,
      samplerType = Sampler_Uniform,
      localOptimization = LO_NestedRANSAC,
      finalOptimization = LO_IRLS,
      terminationCriterion = Termination_RANSAC,
      localOptimizationSettings = LocalOptimizationSettings_default,
      finalOptimizationSettings = LocalOptimizationSettings_default\<rparr>"

section \<open>The collaborators of the optimizer\<close>

text \<open>
  The estimator, the scoring object, the sampler, the score class and the matrix type
  are declared in headers that are not among the sources.  They are parameters of the
  model: a record of the member functions that \<^verbatim>\<open>run\<close> calls, each a function of its
  arguments.  \<open>'m\<close> is \<^verbatim>\<open>models::Model\<close>, \<open>'s\<close> is \<^verbatim>\<open>scoring::Score\<close>, \<open>'x\<close> is the
  coefficient type of \<^verbatim>\<open>DataMatrix\<close> and \<open>'r\<close> the internal state of the sampler.
\<close>

type_synonym 'x DataMatrix = "'x list list"

text \<open>
  \<^verbatim>\<open>M(r, c)\<close>: the coefficient in row \<open>r\<close> and column \<open>c\<close>; \<open>None\<close> outside the matrix.
\<close>

definition coeff :: "'x DataMatrix \<Rightarrow> size_t \<Rightarrow> nat \<Rightarrow> 'x option" where
  "coeff M r c =
     (if unat r < length M \<and> c < length (M ! unat r) then Some (M ! unat r ! c) else None)"

text \<open>
  \<^verbatim>\<open>estimateModelNonminimal(data, sample, sampleNumber, models, weights)\<close>: the sample
  pointer is \<open>None\<close> for \<^verbatim>\<open>nullptr\<close>; the weights are always \<^verbatim>\<open>nullptr\<close> here and are left
  out.  The vector of models is read and written, so it is an argument and a result.
\<close>

record ('m, 'x) Estimator =
  sampleSize :: size_t
  nonMinimalSampleSize :: size_t
  estimateModelNonminimal ::
    "'x DataMatrix \<Rightarrow> size_t list option \<Rightarrow> size_t \<Rightarrow> 'm list \<Rightarrow> bool \<times> 'm list"

text \<open>
  The two overloads of \<^verbatim>\<open>AbstractScoring::score\<close>.  The last argument is the vector of
  inliers as it comes in; the result is the score and the vector as it goes out.
\<close>

record ('m, 's, 'x) AbstractScoring =
  score ::
    "'x DataMatrix \<Rightarrow> 'm \<Rightarrow> ('m, 'x) Estimator \<Rightarrow> size_t list \<Rightarrow> 's \<times> size_t list"
  score_multi ::
    "'x DataMatrix \<Rightarrow> 'x DataMatrix \<Rightarrow> 'x DataMatrix \<Rightarrow> 'x DataMatrix \<Rightarrow> 'm \<Rightarrow>
       ('m, 'x) Estimator \<Rightarrow> (size_t \<times> size_t) list \<Rightarrow> 's \<times> (size_t \<times> size_t) list"

text \<open>
  \<^verbatim>\<open>samplers::UniformRandomSampler\<close>: the state after default construction,
  \<^verbatim>\<open>initialize(n)\<close> and \<^verbatim>\<open>sample(poolSize, k, out)\<close>.  \<open>sample\<close> returns the flag, the
  indices written to \<^verbatim>\<open>out[0..k-1]\<close> and the new state.
\<close>

record 'r UniformRandomSampler =
  constructed :: 'r
  initialize :: "size_t \<Rightarrow> 'r \<Rightarrow> 'r"
  sample :: "size_t \<Rightarrow> size_t \<Rightarrow> 'r \<Rightarrow> bool \<times> size_t list \<times> 'r"

text \<open>
  The memory of the machine.  \<open>allocates bytes n\<close> tells whether a request for \<open>n\<close>
  elements of \<open>bytes\<close> bytes each is granted; the constructors of \<^verbatim>\<open>std::vector\<close> and
  \<^verbatim>\<open>Eigen::MatrixXd\<close>, \<^verbatim>\<open>reserve\<close> and \<^verbatim>\<open>new[]\<close> throw when it is not
  (\<^verbatim>\<open>std::length_error\<close>, \<^verbatim>\<open>std::bad_array_new_length\<close>, \<^verbatim>\<open>std::bad_alloc\<close>).  It decides
  the requests of \<^verbatim>\<open>run\<close> whose size comes from the arguments of the call.
\<close>

type_synonym allocator = "nat \<Rightarrow> size_t \<Rightarrow> bool"

section \<open>NestedRANSACOptimizer (include/local\_optimization/nested\_ransac\_optimizer.h)\<close>

record NestedRANSACOptimizer =
  maxIterations :: size_t
  sampleSizeMultiplier :: size_t

text \<open>The constructor.\<close>

definition NestedRANSACOptimizer_new :: NestedRANSACOptimizer where
  "NestedRANSACOptimizer_new = \<lparr>maxIterations = 50, sampleSizeMultiplier = 7\<rparr>"

definition setMaxIterations :: "size_t \<Rightarrow> NestedRANSACOptimizer \<Rightarrow> NestedRANSACOptimizer" where
  "setMaxIterations maxIterations' this = this\<lparr>maxIterations := maxIterations'\<rparr>"

definition setSampleSizeMultiplier ::
  "size_t \<Rightarrow> NestedRANSACOptimizer \<Rightarrow> NestedRANSACOptimizer" where
  "setSampleSizeMultiplier sampleSizeMultiplier' this =
     this\<lparr>sampleSizeMultiplier := sampleSizeMultiplier'\<rparr>"

subsection \<open>What an iteration leaves behind\<close>

text \<open>
  Reading a vector or a matrix outside its bounds is undefined behaviour in the source,
  and a request for memory that is not granted throws; the model stops with a fault in
  both cases.
\<close>

datatype fault = OutOfBounds | AllocationFailed

text \<open>
  The variables of \<^verbatim>\<open>run\<close> that live across iterations: the three results and the
  sampler.  \<open>'i\<close> is the element type of the inlier vector: a pair of indices in the
  multi-match overload, an index in the single-match overload.  \<^verbatim>\<open>currentScore\<close>,
  \<^verbatim>\<open>currentInliers\<close>, \<^verbatim>\<open>currentlyEstimatedModels\<close> and the sample buffers are written
  before they are read in every iteration and are local to the iteration here.
\<close>

record ('m, 's, 'i, 'r) best_so_far =
  estimatedModel :: 'm
  estimatedScore :: 's
  estimatedInliers :: "'i list"
  sampler :: 'r

text \<open>
  A record of what each iteration of the inner loop did.  It is not a variable of the
  source: it is written from the variables of the source, never read, and lets the
  theorems speak about every iteration of a call.  \<open>at_start\<close> and \<open>at_end\<close> are the
  variables above at the top and at the end of the iteration, \<open>drawn\<close> is
  \<^verbatim>\<open>currentSampleSize\<close>, \<open>copied_all\<close> tells that the branch copying all inliers was taken,
  \<open>handed\<close> is the sample that went to the estimator (if the iteration got there),
  \<open>sampler_after\<close> the sampler after the draw, \<open>candidates\<close> is
  \<^verbatim>\<open>currentlyEstimatedModels\<close> as the estimator left it, and \<open>left_at\<close> is the place where the
  iteration ended.
\<close>

datatype exit_point = AtBreak | AtSamplerContinue | AtEstimatorFailure | AfterScoring

record ('m, 's, 'i, 'r) iteration_note =
  at_start :: "('m, 's, 'i, 'r) best_so_far"
  drawn :: size_t
  copied_all :: bool
  handed :: "'i list option"
  sampler_after :: 'r
  candidates :: "'m list"
  left_at :: exit_point
  at_end :: "('m, 's, 'i, 'r) best_so_far"

text \<open>\<^verbatim>\<open>estimatedInliers_.size()\<close> at the top of the iteration.\<close>

definition pool :: "('m, 's, 'i, 'r) iteration_note \<Rightarrow> size_t" where
  "pool n = vsize (estimatedInliers (at_start n))"

text \<open>The state of the loop: the variables and the trail of notes.\<close>

record ('m, 's, 'i, 'r) run_state = "('m, 's, 'i, 'r) best_so_far" +
  trail :: "('m, 's, 'i, 'r) iteration_note list"

definition current :: "('m, 's, 'i, 'r) run_state \<Rightarrow> ('m, 's, 'i, 'r) best_so_far" where
  "current st =
     \<lparr>estimatedModel = estimatedModel st, estimatedScore = estimatedScore st,
      estimatedInliers = estimatedInliers st, sampler = sampler st\<rparr>"

text \<open>
  The end of an iteration: the note gets the variables as they are now and goes to the
  end of the trail.
\<close>

definition close_iteration ::
  "('m, 's, 'i, 'r) iteration_note list \<Rightarrow> ('m, 's, 'i, 'r) iteration_note \<Rightarrow>
     ('m, 's, 'i, 'r) run_state \<Rightarrow> ('m, 's, 'i, 'r) run_state" where
  "close_iteration earlier note st = st\<lparr>trail := earlier @ [note\<lparr>at_end := current st\<rparr>]\<rparr>"

text \<open>How control leaves the body of the loop: on to the next iteration, or out.\<close>

datatype 'a flow = Continue 'a | Leave 'a

text \<open>
  Lines 131 to 133 and 250 to 252:
  \<^verbatim>\<open>currentSampleSize = estimatedInliers_.size() - 1;
  if (currentSampleSize >= kNonMinimalSampleSize) currentSampleSize = kNonMinimalSampleSize;\<close>
\<close>

definition currentSampleSize :: "size_t \<Rightarrow> 'i list \<Rightarrow> size_t" where
  "currentSampleSize kNonMinimalSampleSize inliers =
     (let css = vsize inliers - 1
      in if css \<ge> kNonMinimalSampleSize then kNonMinimalSampleSize else css)"

text \<open>
  \<^verbatim>\<open>v[idx]\<close> for each index of a list of indices; \<open>None\<close> when one is outside the vector.
\<close>

definition gather :: "'i list \<Rightarrow> size_t list \<Rightarrow> 'i list option" where
  "gather v idxs =
     (if list_all (\<lambda>idx. unat idx < length v) idxs
      then Some (map (\<lambda>idx. v ! unat idx) idxs) else None)"

text \<open>
  Lines 140 to 156 and 259 to 275.  The result is the flag of the branch taken, the
  selected inliers (\<open>None\<close> when the sampler said no and the iteration goes on to the next
  one) and the state of the sampler.  A sampler that says yes has written
  \<^verbatim>\<open>currentSampleSize\<close> indices; with any other number the source would read slots of
  the buffer that this call of the sampler did not write, and the model faults.
\<close>

definition select_sample ::
  "'r UniformRandomSampler \<Rightarrow> 'i list \<Rightarrow> size_t \<Rightarrow> 'r \<Rightarrow>
     fault + (bool \<times> 'i list option \<times> 'r)" where
  "select_sample S inliers css smp =
     (if css = vsize inliers then
        (if unat css \<le> length inliers then Inr (True, Some (take (unat css) inliers), smp)
         else Inl OutOfBounds)
      else
        (case sample S (vsize inliers) css smp of
           (False, _, smp') \<Rightarrow> Inr (False, None, smp')
         | (True, currentSample, smp') \<Rightarrow>
             (if length currentSample = unat css then
                (case gather inliers currentSample of
                   None \<Rightarrow> Inl OutOfBounds
                 | Some selected \<Rightarrow> Inr (False, Some selected, smp'))
              else Inl OutOfBounds)))"

text \<open>
  Lines 186 to 204 and 293 to 304, the body of the loop over the estimated models.  \<open>gt\<close>
  is \<^verbatim>\<open>Score::operator>\<close> and \<open>sc\<close> the call of the scoring object with everything but
  the model and the (cleared) vector of inliers fixed.
\<close>

definition update_best ::
  "('s \<Rightarrow> 's \<Rightarrow> bool) \<Rightarrow> 'r UniformRandomSampler \<Rightarrow> ('m \<Rightarrow> 'i list \<Rightarrow> 's \<times> 'i list) \<Rightarrow>
     ('m, 's, 'i, 'r) run_state \<Rightarrow> 'm \<Rightarrow> ('m, 's, 'i, 'r) run_state" where
  "update_best gt S sc st model =
     (case sc model [] of
        (currentScore, currentInliers) \<Rightarrow>
          if gt currentScore (estimatedScore st) then
            st\<lparr>estimatedModel := model,
               estimatedScore := currentScore,
               estimatedInliers := currentInliers,
               sampler := initialize S (vsize currentInliers - 1) (sampler st)\<rparr>
          else st)"

text \<open>Lines 183 to 205 and 290 to 305: the loop over \<^verbatim>\<open>currentlyEstimatedModels\<close>.\<close>

definition score_models ::
  "('s \<Rightarrow> 's \<Rightarrow> bool) \<Rightarrow> 'r UniformRandomSampler \<Rightarrow> ('m \<Rightarrow> 'i list \<Rightarrow> 's \<times> 'i list) \<Rightarrow>
     ('m, 's, 'i, 'r) run_state \<Rightarrow> 'm list \<Rightarrow> ('m, 's, 'i, 'r) run_state" where
  "score_models gt S sc st models = foldl (update_best gt S sc) st models"

text \<open>
  Lines 128 and 247: \<^verbatim>\<open>for (size_t iteration = 0; iteration < maxIterations; ++iteration)\<close>
  around a body that goes on (\<^verbatim>\<open>continue\<close>, or the end of the body), leaves (\<^verbatim>\<open>break\<close>,
  \<^verbatim>\<open>return\<close>) or faults.
\<close>

function inner_loop ::
  "size_t \<Rightarrow> ('st \<Rightarrow> fault + 'st flow) \<Rightarrow> size_t \<Rightarrow> 'st \<Rightarrow> fault + 'st" where
  "inner_loop maxIters body iteration st =
     (if iteration < maxIters then
        (case body st of
           Inl f \<Rightarrow> Inl f
         | Inr (Leave st') \<Rightarrow> Inr st'
         | Inr (Continue st') \<Rightarrow> inner_loop maxIters body (iteration + 1) st')
      else Inr st)"
  by pat_completeness auto

termination
proof (relation "measure (\<lambda>(maxIters, body, iteration, st). unat maxIters - unat iteration)")
  show "wf (measure (\<lambda>(maxIters :: size_t, body :: 'a \<Rightarrow> fault + 'a flow, iteration :: size_t, st :: 'a).
              unat maxIters - unat iteration))"
    by simp
next
  fix maxIters iteration :: size_t and body :: "'a \<Rightarrow> fault + 'a flow" and st x2 x1 :: "'a"
    and x2a :: "'a flow"
  assume less: "iteration < maxIters"
  then have "iteration \<noteq> - 1"
    using word_order.extremum_strict by blast
  then have "1 + iteration \<noteq> 0"
    by (simp add: add_eq_0_iff)
  then have "unat (1 + iteration) = Suc (unat iteration)"
    by (rule unatSuc)
  then have "unat (iteration + 1) = Suc (unat iteration)"
    by (simp add: add.commute)
  moreover from less have "unat iteration < unat maxIters"
    by (simp add: word_less_nat_alt)
  ultimately show "((maxIters, body, iteration + 1, x1), (maxIters, body, iteration, st))
      \<in> measure (\<lambda>(maxIters, body, iteration, st). unat maxIters - unat iteration)"
    by simp
qed

subsection \<open>The multi-match overload\<close>

text \<open>
  Lines 163 to 172: one row \<^verbatim>\<open>(src(first, 0), src(first, 1), dst(second, 0), dst(second, 1))\<close>
  of the matrix of correspondences for each selected match.
\<close>

definition correspondence_row ::
  "'x DataMatrix \<Rightarrow> 'x DataMatrix \<Rightarrow> size_t \<times> size_t \<Rightarrow> 'x list option" where
  "correspondence_row kDataSrc kDataDst match =
     (case (coeff kDataSrc (fst match) 0, coeff kDataSrc (fst match) 1,
            coeff kDataDst (snd match) 0, coeff kDataDst (snd match) 1) of
        (Some x1, Some y1, Some x2, Some y2) \<Rightarrow> Some [x1, y1, x2, y2]
      | _ \<Rightarrow> None)"

definition correspondences_of ::
  "'x DataMatrix \<Rightarrow> 'x DataMatrix \<Rightarrow> (size_t \<times> size_t) list \<Rightarrow> 'x DataMatrix option" where
  "correspondences_of kDataSrc kDataDst currentMatches =
     those (map (correspondence_row kDataSrc kDataDst) currentMatches)"

text \<open>
  Lines 129 to 206: the body of the inner loop.  The matrix of correspondences (line
  163) has \<^verbatim>\<open>currentSampleSize\<close> rows of four \<^verbatim>\<open>double\<close>s, 32 bytes each.
\<close>

definition iteration_multi ::
  "allocator \<Rightarrow> NestedRANSACOptimizer \<Rightarrow> 'r UniformRandomSampler \<Rightarrow> ('s \<Rightarrow> 's \<Rightarrow> bool) \<Rightarrow>
     'x DataMatrix \<Rightarrow> 'x DataMatrix \<Rightarrow> 'x DataMatrix \<Rightarrow> 'x DataMatrix \<Rightarrow>
     ('m, 'x) Estimator \<Rightarrow> ('m, 's, 'x) AbstractScoring \<Rightarrow>
     ('m, 's, size_t \<times> size_t, 'r) run_state \<Rightarrow>
     fault + ('m, 's, size_t \<times> size_t, 'r) run_state flow" where
  "iteration_multi allocates this S gt kDataSrc kDataDst kMatches kMatchScores kEstimator
       kScoring st =
     (let kNonMinimalSampleSize = sampleSizeMultiplier this * nonMinimalSampleSize kEstimator;
          css = currentSampleSize kNonMinimalSampleSize (estimatedInliers st);
          note = \<lparr>at_start = current st, drawn = css, copied_all = False, handed = None,
                  sampler_after = sampler st, candidates = [], left_at = AtBreak,
                  at_end = current st\<rparr>
      in if css < nonMinimalSampleSize kEstimator then
           Inr (Leave (close_iteration (trail st) note st))
         else
           (case select_sample S (estimatedInliers st) css (sampler st) of
              Inl f \<Rightarrow> Inl f
            | Inr (copied, None, smp) \<Rightarrow>
                Inr (Continue (close_iteration (trail st)
                  (note\<lparr>copied_all := copied, sampler_after := smp,
                     left_at := AtSamplerContinue\<rparr>)
                  (st\<lparr>sampler := smp\<rparr>)))
            | Inr (copied, Some currentMatches, smp) \<Rightarrow>
                if \<not> allocates 32 css then Inl AllocationFailed
                else
                  (case correspondences_of kDataSrc kDataDst currentMatches of
                     None \<Rightarrow> Inl OutOfBounds
                   | Some correspondences \<Rightarrow>
                       (case estimateModelNonminimal kEstimator correspondences None css
                               [estimatedModel st] of
                          (False, currentlyEstimatedModels) \<Rightarrow>
                            Inr (Leave (close_iteration (trail st)
                              (note\<lparr>copied_all := copied, handed := Some currentMatches,
                                 sampler_after := smp,
                                 candidates := currentlyEstimatedModels,
                                 left_at := AtEstimatorFailure\<rparr>)
                              (st\<lparr>sampler := smp\<rparr>)))
                        | (True, currentlyEstimatedModels) \<Rightarrow>
                            Inr (Continue (close_iteration (trail st)
                              (note\<lparr>copied_all := copied, handed := Some currentMatches,
                                 sampler_after := smp,
                                 candidates := currentlyEstimatedModels,
                                 left_at := AfterScoring\<rparr>)
                              (score_models gt S
                                 (\<lambda>model. score_multi kScoring kDataSrc kDataDst kMatches
                                    kMatchScores model kEstimator)
                                 (st\<lparr>sampler := smp\<rparr>)
                                 currentlyEstimatedModels)))))))"

text \<open>
  Lines 100 to 125, up to the loop.  \<^verbatim>\<open>estimatedInliers_\<close> is passed to the scoring object
  as the caller hands it over, so its incoming value is an argument; \<^verbatim>\<open>estimatedModel_\<close>
  and \<^verbatim>\<open>estimatedScore_\<close> are assigned before they are read.  Before the scoring,
  \<^verbatim>\<open>currentInliers\<close> reserves one pair of indices (16 bytes) for each row of
  \<^verbatim>\<open>kDataSrc_\<close> (line 110), and \<^verbatim>\<open>currentSample\<close> and \<^verbatim>\<open>currentMatches\<close> are constructed
  with \<^verbatim>\<open>kNonMinimalSampleSize\<close> elements of 8 and 16 bytes (lines 113 and 114).
\<close>

definition initial_state_multi ::
  "allocator \<Rightarrow> NestedRANSACOptimizer \<Rightarrow> 'r UniformRandomSampler \<Rightarrow>
     'x DataMatrix \<Rightarrow> 'x DataMatrix \<Rightarrow> 'x DataMatrix \<Rightarrow> 'x DataMatrix \<Rightarrow>
     'm \<Rightarrow> ('m, 'x) Estimator \<Rightarrow> ('m, 's, 'x) AbstractScoring \<Rightarrow> (size_t \<times> size_t) list \<Rightarrow>
     fault + ('m, 's, size_t \<times> size_t, 'r) run_state" where
  "initial_state_multi allocates this S kDataSrc kDataDst kMatches kMatchScores kModel
       kEstimator kScoring estimatedInliers0 =
     (let kNonMinimalSampleSize = sampleSizeMultiplier this * nonMinimalSampleSize kEstimator
      in if allocates 16 (vsize kDataSrc) \<and> allocates 8 kNonMinimalSampleSize
            \<and> allocates 16 kNonMinimalSampleSize then
           (case score_multi kScoring kDataSrc kDataDst kMatches kMatchScores kModel
                   kEstimator estimatedInliers0 of
              (estimatedScore', estimatedInliers') \<Rightarrow>
                Inr \<lparr>estimatedModel = kModel,
                     estimatedScore = estimatedScore',
                     estimatedInliers = estimatedInliers',
                     sampler = initialize S (vsize estimatedInliers' - 1) (constructed S),
                     trail = []\<rparr>)
         else Inl AllocationFailed)"

text \<open>
  Lines 79 to 207, \<^verbatim>\<open>run\<close> on multi-matches.  The result is the state after the loop: its
  first three fields are the three results of the source.
\<close>

definition run_multi ::
  "allocator \<Rightarrow> NestedRANSACOptimizer \<Rightarrow> 'r UniformRandomSampler \<Rightarrow> ('s \<Rightarrow> 's \<Rightarrow> bool) \<Rightarrow>
     'x DataMatrix \<Rightarrow> 'x DataMatrix \<Rightarrow> 'x DataMatrix \<Rightarrow> 'x DataMatrix \<Rightarrow>
     (size_t \<times> size_t) list \<Rightarrow> 'm \<Rightarrow> 's \<Rightarrow>
     ('m, 'x) Estimator \<Rightarrow> ('m, 's, 'x) AbstractScoring \<Rightarrow> (size_t \<times> size_t) list \<Rightarrow>
     fault + ('m, 's, size_t \<times> size_t, 'r) run_state" where
  "run_multi allocates this S gt kDataSrc kDataDst kMatches kMatchScores kInliers kModel kScore
       kEstimator kScoring estimatedInliers0 =
     (case initial_state_multi allocates this S kDataSrc kDataDst kMatches kMatchScores kModel
             kEstimator kScoring estimatedInliers0 of
        Inl f \<Rightarrow> Inl f
      | Inr st \<Rightarrow>
          inner_loop (maxIterations this)
            (iteration_multi allocates this S gt kDataSrc kDataDst kMatches kMatchScores
               kEstimator kScoring)
            0 st)"

subsection \<open>The single-match overload\<close>

text \<open>
  Lines 248 to 306: the body of the inner loop.  The sample is a list of row indices of
  \<^verbatim>\<open>kData_\<close>; the estimator gets the data, the sample and its size, and an empty vector
  of models.
\<close>

definition iteration_single ::
  "NestedRANSACOptimizer \<Rightarrow> 'r UniformRandomSampler \<Rightarrow> ('s \<Rightarrow> 's \<Rightarrow> bool) \<Rightarrow>
     'x DataMatrix \<Rightarrow> ('m, 'x) Estimator \<Rightarrow> ('m, 's, 'x) AbstractScoring \<Rightarrow>
     ('m, 's, size_t, 'r) run_state \<Rightarrow> fault + ('m, 's, size_t, 'r) run_state flow" where
  "iteration_single this S gt kData kEstimator kScoring st =
     (let kNonMinimalSampleSize = sampleSizeMultiplier this * sampleSize kEstimator;
          css = currentSampleSize kNonMinimalSampleSize (estimatedInliers st);
          note = \<lparr>at_start = current st, drawn = css, copied_all = False, handed = None,
                  sampler_after = sampler st, candidates = [], left_at = AtBreak,
                  at_end = current st\<rparr>
      in if css < sampleSize kEstimator then
           Inr (Leave (close_iteration (trail st) note st))
         else
           (case select_sample S (estimatedInliers st) css (sampler st) of
              Inl f \<Rightarrow> Inl f
            | Inr (copied, None, smp) \<Rightarrow>
                Inr (Continue (close_iteration (trail st)
                  (note\<lparr>copied_all := copied, sampler_after := smp,
                     left_at := AtSamplerContinue\<rparr>)
                  (st\<lparr>sampler := smp\<rparr>)))
            | Inr (copied, Some currentSample, smp) \<Rightarrow>
                (case estimateModelNonminimal kEstimator kData (Some currentSample) css [] of
                   (False, currentlyEstimatedModels) \<Rightarrow>
                     Inr (Continue (close_iteration (trail st)
                       (note\<lparr>copied_all := copied, handed := Some currentSample,
                          sampler_after := smp, candidates := currentlyEstimatedModels,
                          left_at := AtEstimatorFailure\<rparr>)
                       (st\<lparr>sampler := smp\<rparr>)))
                 | (True, currentlyEstimatedModels) \<Rightarrow>
                     Inr (Continue (close_iteration (trail st)
                       (note\<lparr>copied_all := copied, handed := Some currentSample,
                          sampler_after := smp, candidates := currentlyEstimatedModels,
                          left_at := AfterScoring\<rparr>)
                       (score_models gt S (\<lambda>model. score kScoring kData model kEstimator)
                          (st\<lparr>sampler := smp\<rparr>)
                          currentlyEstimatedModels))))))"

text \<open>
  Lines 227 to 244, up to the loop.  Before the scoring, \<^verbatim>\<open>currentInliers\<close> reserves one
  index (8 bytes) for each row of \<^verbatim>\<open>kData_\<close> (line 237) and \<^verbatim>\<open>currentSample\<close> is
  allocated with \<^verbatim>\<open>kNonMinimalSampleSize\<close> indices (line 240).
\<close>

definition initial_state_single ::
  "allocator \<Rightarrow> NestedRANSACOptimizer \<Rightarrow> 'r UniformRandomSampler \<Rightarrow> 'x DataMatrix \<Rightarrow> 'm \<Rightarrow>
     ('m, 'x) Estimator \<Rightarrow> ('m, 's, 'x) AbstractScoring \<Rightarrow> size_t list \<Rightarrow>
     fault + ('m, 's, size_t, 'r) run_state" where
  "initial_state_single allocates this S kData kModel kEstimator kScoring estimatedInliers0 =
     (let kNonMinimalSampleSize = sampleSizeMultiplier this * sampleSize kEstimator
      in if allocates 8 (vsize kData) \<and> allocates 8 kNonMinimalSampleSize then
           (case score kScoring kData kModel kEstimator estimatedInliers0 of
              (estimatedScore', estimatedInliers') \<Rightarrow>
                Inr \<lparr>estimatedModel = kModel,
                     estimatedScore = estimatedScore',
                     estimatedInliers = estimatedInliers',
                     sampler = initialize S (vsize estimatedInliers' - 1) (constructed S),
                     trail = []\<rparr>)
         else Inl AllocationFailed)"

text \<open>Lines 210 to 310, \<^verbatim>\<open>run\<close> on single matches.\<close>

definition run_single ::
  "allocator \<Rightarrow> NestedRANSACOptimizer \<Rightarrow> 'r UniformRandomSampler \<Rightarrow> ('s \<Rightarrow> 's \<Rightarrow> bool) \<Rightarrow>
     'x DataMatrix \<Rightarrow> size_t list \<Rightarrow> 'm \<Rightarrow> 's \<Rightarrow>
     ('m, 'x) Estimator \<Rightarrow> ('m, 's, 'x) AbstractScoring \<Rightarrow> size_t list \<Rightarrow>
     fault + ('m, 's, size_t, 'r) run_state" where
  "run_single allocates this S gt kData kInliers kModel kScore kEstimator kScoring
       estimatedInliers0 =
     (case initial_state_single allocates this S kData kModel kEstimator kScoring
             estimatedInliers0 of
        Inl f \<Rightarrow> Inl f
      | Inr st \<Rightarrow>
          inner_loop (maxIterations this)
            (iteration_single this S gt kData kEstimator kScoring)
            0 st)"

section \<open>Notions used in the statements\<close>

text \<open>The state a body execution leaves behind, and whether the loop goes on after it.\<close>

fun after :: "'a flow \<Rightarrow> 'a" where
  "after (Continue s) = s"
| "after (Leave s) = s"

fun goes_on :: "'a flow \<Rightarrow> bool" where
  "goes_on (Continue s) = True"
| "goes_on (Leave s) = False"

text \<open>
  Greater or equal under the ordering of scores, given \<^verbatim>\<open>Score::operator>\<close> as \<open>gt\<close>.
\<close>

definition at_least :: "('s \<Rightarrow> 's \<Rightarrow> bool) \<Rightarrow> 's \<Rightarrow> 's \<Rightarrow> bool" where
  "at_least gt a b = (gt a b \<or> a = b)"




text \<open>
  What every note of an iteration satisfies, for the cap \<open>kN\<close> on the sample size and the
  size \<open>lowest\<close> below which the loop breaks.
\<close>

definition note_ok :: "size_t \<Rightarrow> size_t \<Rightarrow> ('m, 's, 'i, 'r) iteration_note \<Rightarrow> bool" where
  "note_ok kN lowest n =
     (drawn n = min kN (pool n - 1)
      \<and> (left_at n = AtBreak \<longleftrightarrow> drawn n < lowest)
      \<and> (copied_all n \<longrightarrow> drawn n = pool n \<and> \<not> drawn n < lowest))"

section \<open>A concrete estimator, scoring object, sampler and memory\<close>

text \<open>
  Scores and models are natural numbers, the score of a model is the model itself, and
  the same inliers are found for every model (three of them by \<open>ex_scoring\<close>).  The
  estimator fails on a sample that starts with point 0 and otherwise adds the first
  coordinate (or index) of the sample to the models.  The sampler counts its calls and
  draws consecutive indices from the count on; it refuses to draw more than the pool
  holds.  \<open>ex_sampler\<close> starts counting at 0, \<open>ex_sampler_later\<close> at 1.  The memory grants
  every request of at most 1024 bytes.
\<close>

definition nat_gt :: "nat \<Rightarrow> nat \<Rightarrow> bool" where
  "nat_gt a b = (b < a)"

definition ex_memory :: allocator where
  "ex_memory bytes n = (bytes * unat n \<le> 1024)"

definition ex_estimator :: "(nat, nat) Estimator" where
  "ex_estimator =
     \<lparr>sampleSize = 1,
      nonMinimalSampleSize = 2,
      estimateModelNonminimal = (\<lambda>data smp k models.
        case smp of
          None \<Rightarrow>
            (case data of
               (x # _) # _ \<Rightarrow> if x = 0 then (False, models) else (True, models @ [x])
             | _ \<Rightarrow> (False, models))
        | Some idxs \<Rightarrow>
            (case idxs of
               i # _ \<Rightarrow> if i = 0 then (False, models) else (True, models @ [unat i])
             | [] \<Rightarrow> (False, models)))\<rparr>"

definition ex_scoring_with ::
  "size_t list \<Rightarrow> (size_t \<times> size_t) list \<Rightarrow> (nat, nat, nat) AbstractScoring" where
  "ex_scoring_with found found_multi =
     \<lparr>score = (\<lambda>data model est inl. (model, inl @ found)),
      score_multi = (\<lambda>src dst ms mss model est inl. (model, inl @ found_multi))\<rparr>"

definition ex_scoring :: "(nat, nat, nat) AbstractScoring" where
  "ex_scoring = ex_scoring_with [0, 1, 2] [(0, 0), (1, 1), (2, 2)]"

definition ex_sampler_from :: "nat \<Rightarrow> (size_t \<times> nat) UniformRandomSampler" where
  "ex_sampler_from start =
     \<lparr>constructed = (0, start),
      initialize = (\<lambda>n (a, c). (n, c)),
      sample = (\<lambda>p k (a, c).
        (k \<le> p, map (\<lambda>j. of_nat ((c + j) mod unat p)) [0..<unat k], (a, Suc c)))\<rparr>"

definition ex_sampler :: "(size_t \<times> nat) UniformRandomSampler" where
  "ex_sampler = ex_sampler_from 0"

definition ex_sampler_later :: "(size_t \<times> nat) UniformRandomSampler" where
  "ex_sampler_later = ex_sampler_from 1"

definition ex_points :: "nat DataMatrix" where
  "ex_points = [[0, 0], [1, 1], [2, 2]]"

definition ex_optimizer :: NestedRANSACOptimizer where
  "ex_optimizer = setSampleSizeMultiplier 1 (setMaxIterations 3 NestedRANSACOptimizer_new)"

section \<open>Facts about machine integers\<close>

lemma unat_succ_below: "unat (i + 1) = Suc (unat i)" if "i < m" for i m :: size_t
proof -
  from that have "i \<noteq> - 1"
    using word_order.extremum_strict by blast
  then have "1 + i \<noteq> 0"
    by (simp add: add_eq_0_iff)
  then have "unat (1 + i) = Suc (unat i)"
    by (rule unatSuc)
  then show ?thesis
    by (simp add: add.commute)
qed

lemma currentSampleSize_min:
  "currentSampleSize kN inliers = min kN (vsize inliers - 1)"
  by (simp add: currentSampleSize_def Let_def min_def)

lemma copy_branch_dead:
  fixes lowest kN p :: size_t
  assumes "0 < lowest" and "\<not> min kN (p - 1) < lowest"
  shows "min kN (p - 1) \<noteq> p"
  by (metis assms(1,2) less_eq_dec_triv_imp min.cobounded2)

lemma below_pool:
  fixes kN p :: size_t
  assumes "p \<noteq> 0"
  shows "min kN (p - 1) < p"
  by (meson assms less_eq_dec_triv_imp min_less_iff_disj verit_comp_simplify1(3))

section \<open>The inner loop\<close>

lemma inner_loop_rule:
  assumes "inner_loop mx body i st = Inr st'"
    and "I st"
    and "\<And>s s'. I s \<Longrightarrow> body s = Inr (Continue s') \<Longrightarrow> I s'"
    and "\<And>s s'. I s \<Longrightarrow> body s = Inr (Leave s') \<Longrightarrow> Q s'"
    and "\<And>s. I s \<Longrightarrow> Q s"
  shows "Q st'"
  using assms
proof (induction mx body i st rule: inner_loop.induct)
  case (1 mx body i st)
  note run = "1.prems"(1) and init = "1.prems"(2) and cont = "1.prems"(3)
    and leave = "1.prems"(4) and out = "1.prems"(5)
  show ?case
  proof (cases "i < mx")
    case False
    with run have "st' = st" by simp
    with init out show ?thesis by simp
  next
    case True
    show ?thesis
    proof (cases "body st")
      case (Inl f)
      with True run show ?thesis by simp
    next
      case (Inr fl)
      show ?thesis
      proof (cases fl)
        case (Leave s)
        with True Inr run have "st' = s" by simp
        moreover have "Q s" using leave [OF init] Inr Leave by simp
        ultimately show ?thesis by simp
      next
        case (Continue s)
        with True Inr run have "inner_loop mx body (i + 1) s = Inr st'" by simp
        moreover have "I s" using cont [OF init] Inr Continue by simp
        ultimately show ?thesis
          using "1.IH" [OF True Inr Continue] cont leave out by blast
      qed
    qed
  qed
qed

lemma inner_loop_count:
  fixes st :: "('m, 's, 'i, 'r) run_state"
  assumes "inner_loop mx body i st = Inr st'"
    and "\<And>s fl. body s = Inr fl \<Longrightarrow> length (trail (after fl)) = Suc (length (trail s))"
  shows "length (trail st') \<le> length (trail st) + (unat mx - unat i)"
  using assms
proof (induction mx body i st rule: inner_loop.induct)
  case (1 mx body i st)
  note run = "1.prems"(1) and one = "1.prems"(2)
  show ?case
  proof (cases "i < mx")
    case False
    with run show ?thesis by simp
  next
    case True
    then have lt: "unat i < unat mx" by (simp add: word_less_nat_alt)
    show ?thesis
    proof (cases "body st")
      case (Inl f)
      with True run show ?thesis by simp
    next
      case (Inr fl)
      note len = one [OF Inr]
      show ?thesis
      proof (cases fl)
        case (Leave s)
        with True Inr run have "st' = s" by simp
        with len Leave lt show ?thesis by simp
      next
        case (Continue s)
        with True Inr run have "inner_loop mx body (i + 1) s = Inr st'" by simp
        then have "length (trail st') \<le> length (trail s) + (unat mx - unat (i + 1))"
          using "1.IH" [OF True Inr Continue] one by blast
        with len Continue lt unat_succ_below [OF True] show ?thesis by simp
      qed
    qed
  qed
qed

section \<open>One iteration\<close>



lemma current_simps:
  "estimatedModel (current st) = estimatedModel st"
  "estimatedScore (current st) = estimatedScore st"
  "estimatedInliers (current st) = estimatedInliers st"
  "sampler (current st) = sampler st"
  by (simp_all add: current_def)

lemma close_iteration_simps:
  "trail (close_iteration earlier note st) = earlier @ [note\<lparr>at_end := current st\<rparr>]"
  "current (close_iteration earlier note st) = current st"
  "estimatedModel (close_iteration earlier note st) = estimatedModel st"
  "estimatedScore (close_iteration earlier note st) = estimatedScore st"
  "estimatedInliers (close_iteration earlier note st) = estimatedInliers st"
  "sampler (close_iteration earlier note st) = sampler st"
  by (simp_all add: close_iteration_def current_def)



lemma at_least_refl: "at_least gt a a"
  by (simp add: at_least_def)

lemma at_least_trans:
  "transp gt \<Longrightarrow> at_least gt a b \<Longrightarrow> at_least gt b c \<Longrightarrow> at_least gt a c"
  unfolding at_least_def by (auto dest: transpD)

lemma update_best_at_least:
  "at_least gt (estimatedScore (update_best gt S sc st model)) (estimatedScore st)"
  by (simp add: update_best_def at_least_def split: prod.splits)

lemma score_models_at_least:
  assumes "transp gt"
  shows "at_least gt (estimatedScore (score_models gt S sc st models)) (estimatedScore st)"
  unfolding score_models_def
proof (induction models arbitrary: st)
  case Nil
  show ?case by (simp add: at_least_refl)
next
  case (Cons m models)
  have "at_least gt (estimatedScore (foldl (update_best gt S sc) (update_best gt S sc st m) models))
          (estimatedScore (update_best gt S sc st m))"
    by (rule Cons.IH)
  then show ?case
    using at_least_trans [OF assms _ update_best_at_least] by simp
qed

lemma score_models_at_least_from:
  assumes "transp gt" and "estimatedScore st0 = estimatedScore st"
  shows "at_least gt (estimatedScore (score_models gt S sc st0 models)) (estimatedScore st)"
  using score_models_at_least [OF assms(1), of S sc st0 models] assms(2) by simp



lemma select_sample_copied:
  "select_sample S inliers css smp = Inr (copied, sel, smp') \<Longrightarrow> copied \<Longrightarrow> css = vsize inliers"
  by (auto simp: select_sample_def split: if_splits prod.splits bool.splits option.splits)

lemma select_sample_drawn:
  assumes "select_sample S inliers css smp = Inr (copied, sel, smp')"
    and "css \<noteq> vsize inliers"
  shows "\<not> copied"
    and "smp' = snd (snd (sample S (vsize inliers) css smp))"
    and "sel = (if fst (sample S (vsize inliers) css smp)
                then Some (map (\<lambda>idx. inliers ! unat idx) (fst (snd (sample S (vsize inliers) css smp))))
                else None)"
    and "fst (sample S (vsize inliers) css smp) \<Longrightarrow>
           length (fst (snd (sample S (vsize inliers) css smp))) = unat css
         \<and> list_all (\<lambda>idx. unat idx < length inliers) (fst (snd (sample S (vsize inliers) css smp)))"
  using assms
  by (cases "sample S (vsize inliers) css smp";
      auto simp: select_sample_def gather_def split: if_splits bool.splits option.splits)+

lemma iteration_multi_note:
  assumes "iteration_multi allocates this S gt kDataSrc kDataDst kMatches kMatchScores kEstimator
             kScoring st = Inr fl"
  shows "\<exists>n. trail (after fl) = trail st @ [n]
            \<and> at_start n = current st
            \<and> at_end n = current (after fl)
            \<and> drawn n = currentSampleSize
                 (sampleSizeMultiplier this * nonMinimalSampleSize kEstimator) (estimatedInliers st)
            \<and> (left_at n = AtBreak \<longleftrightarrow> drawn n < nonMinimalSampleSize kEstimator)
            \<and> (goes_on fl \<longrightarrow> left_at n \<noteq> AtBreak)
            \<and> (copied_all n \<longrightarrow> drawn n = pool n \<and> \<not> drawn n < nonMinimalSampleSize kEstimator)
            \<and> (left_at n \<noteq> AtBreak \<longrightarrow>
                 select_sample S (estimatedInliers st) (drawn n) (sampler st)
                   = Inr (copied_all n, handed n, sampler_after n))"
  using assms
  unfolding iteration_multi_def Let_def
  by (auto simp: close_iteration_simps pool_def current_simps
      split: if_splits sum.splits prod.splits option.splits bool.splits
      dest: select_sample_copied)

lemma iteration_single_note:
  assumes "iteration_single this S gt kData kEstimator kScoring st = Inr fl"
  shows "\<exists>n. trail (after fl) = trail st @ [n]
            \<and> at_start n = current st
            \<and> at_end n = current (after fl)
            \<and> drawn n = currentSampleSize
                 (sampleSizeMultiplier this * sampleSize kEstimator) (estimatedInliers st)
            \<and> (left_at n = AtBreak \<longleftrightarrow> drawn n < sampleSize kEstimator)
            \<and> (goes_on fl \<longrightarrow> left_at n \<noteq> AtBreak)
            \<and> (copied_all n \<longrightarrow> drawn n = pool n \<and> \<not> drawn n < sampleSize kEstimator)
            \<and> (left_at n \<noteq> AtBreak \<longrightarrow>
                 select_sample S (estimatedInliers st) (drawn n) (sampler st)
                   = Inr (copied_all n, handed n, sampler_after n))"
  using assms
  unfolding iteration_single_def Let_def
  by (auto simp: close_iteration_simps pool_def current_simps
      split: if_splits sum.splits prod.splits option.splits bool.splits
      dest: select_sample_copied)



lemma iteration_multi_at_least:
  assumes "transp gt"
    and "iteration_multi allocates this S gt kDataSrc kDataDst kMatches kMatchScores kEstimator
           kScoring st = Inr fl"
  shows "at_least gt (estimatedScore (after fl)) (estimatedScore st)"
  using assms(2)
  unfolding iteration_multi_def Let_def
  by (auto simp: at_least_refl close_iteration_simps score_models_at_least_from [OF assms(1)]
      split: if_splits sum.splits prod.splits option.splits bool.splits)

lemma iteration_single_at_least:
  assumes "transp gt"
    and "iteration_single this S gt kData kEstimator kScoring st = Inr fl"
  shows "at_least gt (estimatedScore (after fl)) (estimatedScore st)"
  using assms(2)
  unfolding iteration_single_def Let_def
  by (auto simp: at_least_refl close_iteration_simps score_models_at_least_from [OF assms(1)]
      split: if_splits sum.splits prod.splits option.splits bool.splits)

section \<open>The trail of a call\<close>

lemma inner_loop_notes:
  fixes st :: "('m, 's, 'i, 'r) run_state"
  assumes "inner_loop mx body i st = Inr st'"
    and "list_all P (trail st)"
    and "\<And>s fl. body s = Inr fl \<Longrightarrow> \<exists>n. trail (after fl) = trail s @ [n] \<and> P n"
  shows "list_all P (trail st')"
  using assms(1)
proof (rule inner_loop_rule [where I = "\<lambda>s. list_all P (trail s)"])
  show "list_all P (trail st)"
    by (rule assms(2))
next
  fix s s'
  assume "list_all P (trail s)" and "body s = Inr (Continue s')"
  then show "list_all P (trail s')"
    using assms(3) [of s "Continue s'"] by auto
next
  fix s s'
  assume "list_all P (trail s)" and "body s = Inr (Leave s')"
  then show "list_all P (trail s')"
    using assms(3) [of s "Leave s'"] by auto
next
  fix s :: "('m, 's, 'i, 'r) run_state"
  assume "list_all P (trail s)"
  then show "list_all P (trail s)" .
qed


lemma initial_state_multi_Inr:
  assumes "initial_state_multi allocates this S kDataSrc kDataDst kMatches kMatchScores kModel
             kEstimator kScoring incoming = Inr st"
  shows "trail st = []"
    and "current st =
      \<lparr>estimatedModel = kModel,
       estimatedScore = fst (score_multi kScoring kDataSrc kDataDst kMatches kMatchScores kModel
         kEstimator incoming),
       estimatedInliers = snd (score_multi kScoring kDataSrc kDataDst kMatches kMatchScores kModel
         kEstimator incoming),
       sampler = initialize S
         (vsize (snd (score_multi kScoring kDataSrc kDataDst kMatches kMatchScores kModel
            kEstimator incoming)) - 1) (constructed S)\<rparr>"
  using assms
  by (auto simp: initial_state_multi_def Let_def current_def case_prod_unfold split: if_splits)

lemma initial_state_single_Inr:
  assumes "initial_state_single allocates this S kData kModel kEstimator kScoring incoming = Inr st"
  shows "trail st = []"
    and "current st =
      \<lparr>estimatedModel = kModel,
       estimatedScore = fst (score kScoring kData kModel kEstimator incoming),
       estimatedInliers = snd (score kScoring kData kModel kEstimator incoming),
       sampler = initialize S
         (vsize (snd (score kScoring kData kModel kEstimator incoming)) - 1) (constructed S)\<rparr>"
  using assms
  by (auto simp: initial_state_single_def Let_def current_def case_prod_unfold split: if_splits)

lemma run_multi_Inr:
  assumes "run_multi allocates this S gt kDataSrc kDataDst kMatches kMatchScores kInliers kModel
             kScore kEstimator kScoring incoming = Inr r"
  obtains st where "initial_state_multi allocates this S kDataSrc kDataDst kMatches kMatchScores
        kModel kEstimator kScoring incoming = Inr st"
    and "inner_loop (maxIterations this)
          (iteration_multi allocates this S gt kDataSrc kDataDst kMatches kMatchScores kEstimator
             kScoring) 0 st = Inr r"
  using assms by (auto simp: run_multi_def split: sum.splits)

lemma run_single_Inr:
  assumes "run_single allocates this S gt kData kInliers kModel kScore kEstimator kScoring
             incoming = Inr r"
  obtains st where "initial_state_single allocates this S kData kModel kEstimator kScoring
        incoming = Inr st"
    and "inner_loop (maxIterations this) (iteration_single this S gt kData kEstimator kScoring)
          0 st = Inr r"
  using assms by (auto simp: run_single_def split: sum.splits)

lemma run_multi_count:
  assumes "run_multi allocates this S gt kDataSrc kDataDst kMatches kMatchScores kInliers kModel
             kScore kEstimator kScoring incoming = Inr r"
  shows "length (trail r) \<le> unat (maxIterations this)"
proof -
  from assms obtain st where st: "initial_state_multi allocates this S kDataSrc kDataDst kMatches
        kMatchScores kModel kEstimator kScoring incoming = Inr st"
    and loop: "inner_loop (maxIterations this)
          (iteration_multi allocates this S gt kDataSrc kDataDst kMatches kMatchScores kEstimator
             kScoring) 0 st = Inr r"
    by (rule run_multi_Inr)
  have "length (trail r) \<le> length (trail st) + (unat (maxIterations this) - unat (0 :: size_t))"
    using loop
  proof (rule inner_loop_count)
    fix s fl
    assume "iteration_multi allocates this S gt kDataSrc kDataDst kMatches kMatchScores kEstimator
              kScoring s = Inr fl"
    from iteration_multi_note [OF this] show "length (trail (after fl)) = Suc (length (trail s))"
      by auto
  qed
  with initial_state_multi_Inr(1) [OF st] show ?thesis
    by simp
qed

lemma run_single_count:
  assumes "run_single allocates this S gt kData kInliers kModel kScore kEstimator kScoring
             incoming = Inr r"
  shows "length (trail r) \<le> unat (maxIterations this)"
proof -
  from assms obtain st where st: "initial_state_single allocates this S kData kModel kEstimator
        kScoring incoming = Inr st"
    and loop: "inner_loop (maxIterations this) (iteration_single this S gt kData kEstimator kScoring)
          0 st = Inr r"
    by (rule run_single_Inr)
  have "length (trail r) \<le> length (trail st) + (unat (maxIterations this) - unat (0 :: size_t))"
    using loop
  proof (rule inner_loop_count)
    fix s fl
    assume "iteration_single this S gt kData kEstimator kScoring s = Inr fl"
    from iteration_single_note [OF this] show "length (trail (after fl)) = Suc (length (trail s))"
      by auto
  qed
  with initial_state_single_Inr(1) [OF st] show ?thesis
    by simp
qed

lemma run_multi_at_least:
  assumes "transp gt"
    and "run_multi allocates this S gt kDataSrc kDataDst kMatches kMatchScores kInliers kModel
           kScore kEstimator kScoring incoming = Inr r"
  shows "at_least gt (estimatedScore r)
           (fst (score_multi kScoring kDataSrc kDataDst kMatches kMatchScores kModel kEstimator
              incoming))"
    (is "at_least gt _ ?baseline")
proof -
  from assms(2) obtain st where st: "initial_state_multi allocates this S kDataSrc kDataDst
        kMatches kMatchScores kModel kEstimator kScoring incoming = Inr st"
    and loop: "inner_loop (maxIterations this)
          (iteration_multi allocates this S gt kDataSrc kDataDst kMatches kMatchScores kEstimator
             kScoring) 0 st = Inr r"
    by (rule run_multi_Inr)
  from initial_state_multi_Inr(2) [OF st] have start: "estimatedScore st = ?baseline"
    by (metis best_so_far.select_convs(2) current_simps(2))
  from loop show ?thesis
  proof (rule inner_loop_rule [where I = "\<lambda>s. at_least gt (estimatedScore s) ?baseline"])
    show "at_least gt (estimatedScore st) ?baseline"
      by (simp add: start at_least_refl)
  next
    fix s s'
    assume "at_least gt (estimatedScore s) ?baseline"
      and "iteration_multi allocates this S gt kDataSrc kDataDst kMatches kMatchScores kEstimator
             kScoring s = Inr (Continue s')"
    then show "at_least gt (estimatedScore s') ?baseline"
      using iteration_multi_at_least [OF assms(1)] at_least_trans [OF assms(1)]
      by fastforce
  next
    fix s s'
    assume "at_least gt (estimatedScore s) ?baseline"
      and "iteration_multi allocates this S gt kDataSrc kDataDst kMatches kMatchScores kEstimator
             kScoring s = Inr (Leave s')"
    then show "at_least gt (estimatedScore s') ?baseline"
      using iteration_multi_at_least [OF assms(1)] at_least_trans [OF assms(1)]
      by fastforce
  qed
qed

lemma run_single_at_least:
  assumes "transp gt"
    and "run_single allocates this S gt kData kInliers kModel kScore kEstimator kScoring
           incoming = Inr r"
  shows "at_least gt (estimatedScore r)
           (fst (score kScoring kData kModel kEstimator incoming))"
    (is "at_least gt _ ?baseline")
proof -
  from assms(2) obtain st where st: "initial_state_single allocates this S kData kModel kEstimator
        kScoring incoming = Inr st"
    and loop: "inner_loop (maxIterations this) (iteration_single this S gt kData kEstimator kScoring)
          0 st = Inr r"
    by (rule run_single_Inr)
  from initial_state_single_Inr(2) [OF st] have start: "estimatedScore st = ?baseline"
    by (metis best_so_far.select_convs(2) current_simps(2))
  from loop show ?thesis
  proof (rule inner_loop_rule [where I = "\<lambda>s. at_least gt (estimatedScore s) ?baseline"])
    show "at_least gt (estimatedScore st) ?baseline"
      by (simp add: start at_least_refl)
  next
    fix s s'
    assume "at_least gt (estimatedScore s) ?baseline"
      and "iteration_single this S gt kData kEstimator kScoring s = Inr (Continue s')"
    then show "at_least gt (estimatedScore s') ?baseline"
      using iteration_single_at_least [OF assms(1)] at_least_trans [OF assms(1)]
      by fastforce
  next
    fix s s'
    assume "at_least gt (estimatedScore s) ?baseline"
      and "iteration_single this S gt kData kEstimator kScoring s = Inr (Leave s')"
    then show "at_least gt (estimatedScore s') ?baseline"
      using iteration_single_at_least [OF assms(1)] at_least_trans [OF assms(1)]
      by fastforce
  qed
qed

lemma unat_vsize_le: "unat (vsize v) \<le> length v"
  by (simp add: vsize_def unat_of_nat)

lemma run_multi_sampling:
  assumes "run_multi allocates this S gt kDataSrc kDataDst kMatches kMatchScores kInliers kModel
             kScore kEstimator kScoring incoming = Inr r"
  shows "list_all (\<lambda>n. note_ok (sampleSizeMultiplier this * nonMinimalSampleSize kEstimator)
                     (nonMinimalSampleSize kEstimator) n
            \<and> (left_at n \<noteq> AtBreak \<longrightarrow>
                 select_sample S (estimatedInliers (at_start n)) (drawn n) (sampler (at_start n))
                   = Inr (copied_all n, handed n, sampler_after n))) (trail r)"
proof -
  from assms obtain st where st: "initial_state_multi allocates this S kDataSrc kDataDst kMatches
        kMatchScores kModel kEstimator kScoring incoming = Inr st"
    and loop: "inner_loop (maxIterations this)
          (iteration_multi allocates this S gt kDataSrc kDataDst kMatches kMatchScores kEstimator
             kScoring) 0 st = Inr r"
    by (rule run_multi_Inr)
  from loop show ?thesis
  proof (rule inner_loop_notes)
    show "list_all (\<lambda>n. note_ok (sampleSizeMultiplier this * nonMinimalSampleSize kEstimator)
                     (nonMinimalSampleSize kEstimator) n
            \<and> (left_at n \<noteq> AtBreak \<longrightarrow>
                 select_sample S (estimatedInliers (at_start n)) (drawn n) (sampler (at_start n))
                   = Inr (copied_all n, handed n, sampler_after n))) (trail st)"
      by (simp add: initial_state_multi_Inr(1) [OF st])
  next
    fix s fl
    assume "iteration_multi allocates this S gt kDataSrc kDataDst kMatches kMatchScores kEstimator
              kScoring s = Inr fl"
    from iteration_multi_note [OF this]
    show "\<exists>n. trail (after fl) = trail s @ [n]
        \<and> (note_ok (sampleSizeMultiplier this * nonMinimalSampleSize kEstimator)
                     (nonMinimalSampleSize kEstimator) n
            \<and> (left_at n \<noteq> AtBreak \<longrightarrow>
                 select_sample S (estimatedInliers (at_start n)) (drawn n) (sampler (at_start n))
                   = Inr (copied_all n, handed n, sampler_after n)))"
      by (auto simp: note_ok_def currentSampleSize_min pool_def current_simps)
  qed
qed

lemma run_single_sampling:
  assumes "run_single allocates this S gt kData kInliers kModel kScore kEstimator kScoring
             incoming = Inr r"
  shows "list_all (\<lambda>n. note_ok (sampleSizeMultiplier this * sampleSize kEstimator)
                     (sampleSize kEstimator) n
            \<and> (left_at n \<noteq> AtBreak \<longrightarrow>
                 select_sample S (estimatedInliers (at_start n)) (drawn n) (sampler (at_start n))
                   = Inr (copied_all n, handed n, sampler_after n))) (trail r)"
proof -
  from assms obtain st where st: "initial_state_single allocates this S kData kModel kEstimator
        kScoring incoming = Inr st"
    and loop: "inner_loop (maxIterations this) (iteration_single this S gt kData kEstimator kScoring)
          0 st = Inr r"
    by (rule run_single_Inr)
  from loop show ?thesis
  proof (rule inner_loop_notes)
    show "list_all (\<lambda>n. note_ok (sampleSizeMultiplier this * sampleSize kEstimator)
                     (sampleSize kEstimator) n
            \<and> (left_at n \<noteq> AtBreak \<longrightarrow>
                 select_sample S (estimatedInliers (at_start n)) (drawn n) (sampler (at_start n))
                   = Inr (copied_all n, handed n, sampler_after n))) (trail st)"
      by (simp add: initial_state_single_Inr(1) [OF st])
  next
    fix s fl
    assume "iteration_single this S gt kData kEstimator kScoring s = Inr fl"
    from iteration_single_note [OF this]
    show "\<exists>n. trail (after fl) = trail s @ [n]
        \<and> (note_ok (sampleSizeMultiplier this * sampleSize kEstimator) (sampleSize kEstimator) n
            \<and> (left_at n \<noteq> AtBreak \<longrightarrow>
                 select_sample S (estimatedInliers (at_start n)) (drawn n) (sampler (at_start n))
                   = Inr (copied_all n, handed n, sampler_after n)))"
      by (auto simp: note_ok_def currentSampleSize_min pool_def current_simps)
  qed
qed

lemma note_sampled:
  fixes n :: "('m, 's, 'i, 'r) iteration_note"
  assumes ok: "note_ok kN lowest n"
    and floor: "0 < lowest"
    and drew: "left_at n \<noteq> AtBreak \<longrightarrow>
                 select_sample S (estimatedInliers (at_start n)) (drawn n) (sampler (at_start n))
                   = Inr (copied_all n, handed n, sampler_after n)"
  shows "\<not> copied_all n
     \<and> (left_at n \<noteq> AtBreak \<longrightarrow>
          drawn n \<le> pool n - 1
        \<and> drawn n \<noteq> pool n
        \<and> handed n
            = (if fst (sample S (pool n) (drawn n) (sampler (at_start n)))
               then Some (map (\<lambda>idx. estimatedInliers (at_start n) ! unat idx)
                      (fst (snd (sample S (pool n) (drawn n) (sampler (at_start n))))))
               else None)
        \<and> (pool n = 0 \<longrightarrow> pool n < drawn n)
        \<and> (pool n \<noteq> 0 \<longrightarrow>
             drawn n < pool n
           \<and> (\<forall>sel. handed n = Some sel \<longrightarrow>
                 length sel = unat (drawn n)
               \<and> length sel < length (estimatedInliers (at_start n))
               \<and> set sel \<subseteq> set (estimatedInliers (at_start n)))))"
proof -
  let ?inl = "estimatedInliers (at_start n)"
  let ?call = "sample S (pool n) (drawn n) (sampler (at_start n))"
  from ok have drawn: "drawn n = min kN (pool n - 1)"
    unfolding note_ok_def by blast
  from ok have stop: "left_at n = AtBreak \<longleftrightarrow> drawn n < lowest"
    unfolding note_ok_def by blast
  from ok have copy: "copied_all n \<longrightarrow> drawn n = pool n \<and> \<not> drawn n < lowest"
    unfolding note_ok_def by blast
  have dead: "\<not> drawn n < lowest \<Longrightarrow> drawn n \<noteq> pool n"
    using copy_branch_dead [OF floor, of kN "pool n"] drawn by simp
  with copy have no_copy: "\<not> copied_all n" by blast
  have below: "pool n \<noteq> 0 \<Longrightarrow> drawn n < pool n"
    using below_pool [of "pool n" kN] drawn by simp
  {
    assume past: "left_at n \<noteq> AtBreak"
    with stop dead have differ: "drawn n \<noteq> vsize ?inl"
      by (simp add: pool_def)
    from past drew have sel: "select_sample S ?inl (drawn n) (sampler (at_start n))
        = Inr (copied_all n, handed n, sampler_after n)"
      by blast
    note facts = select_sample_drawn [OF sel differ]
    have handed: "handed n
        = (if fst ?call then Some (map (\<lambda>idx. ?inl ! unat idx) (fst (snd ?call))) else None)"
      using facts(3) by (simp add: pool_def)
    {
      fix sel'
      assume nonempty: "pool n \<noteq> 0" and some: "handed n = Some sel'"
      with handed have yes: "fst ?call"
        and sel': "sel' = map (\<lambda>idx. ?inl ! unat idx) (fst (snd ?call))"
        by (auto split: if_splits)
      from facts(4) yes have len: "length (fst (snd ?call)) = unat (drawn n)"
        and range: "list_all (\<lambda>idx. unat idx < length ?inl) (fst (snd ?call))"
        by (simp_all add: pool_def)
      from below [OF nonempty] have "unat (drawn n) < unat (pool n)"
        by (simp add: word_less_nat_alt)
      also have "\<dots> \<le> length ?inl"
        by (simp add: pool_def unat_vsize_le)
      finally have fewer: "unat (drawn n) < length ?inl" .
      from range have "set sel' \<subseteq> set ?inl"
        by (auto simp: sel' list_all_iff)
      with len fewer sel'
      have "length sel' = unat (drawn n) \<and> length sel' < length ?inl \<and> set sel' \<subseteq> set ?inl"
        by simp
    }
    note subset = this
    from differ have "drawn n \<noteq> pool n"
      by (simp add: pool_def)
    moreover from drawn have "drawn n \<le> pool n - 1"
      by simp
    moreover from past stop floor have "pool n = 0 \<longrightarrow> pool n < drawn n"
      by (simp add: word_less_nat_alt)
    moreover note handed below subset
    ultimately have "drawn n \<le> pool n - 1
        \<and> drawn n \<noteq> pool n
        \<and> handed n = (if fst ?call then Some (map (\<lambda>idx. ?inl ! unat idx) (fst (snd ?call)))
                      else None)
        \<and> (pool n = 0 \<longrightarrow> pool n < drawn n)
        \<and> (pool n \<noteq> 0 \<longrightarrow>
             drawn n < pool n
           \<and> (\<forall>sel. handed n = Some sel \<longrightarrow>
                 length sel = unat (drawn n) \<and> length sel < length ?inl \<and> set sel \<subseteq> set ?inl))"
      by blast
  }
  with no_copy show ?thesis
    by blast
qed





section \<open>The concrete collaborators, evaluated\<close>

lemma transp_nat_gt: "transp nat_gt"
  by (auto simp: transp_def nat_gt_def)

lemma ex_estimator_sizes:
  "0 < nonMinimalSampleSize ex_estimator" "0 < sampleSize ex_estimator"
  by (simp_all add: ex_estimator_def)

lemma ex_run_multi:
  "run_multi ex_memory ex_optimizer ex_sampler nat_gt ex_points ex_points [] []
     [(0, 0), (1, 1), (2, 2)] 0 0 ex_estimator ex_scoring []
   = Inr \<lparr>estimatedModel = 0, estimatedScore = 0,
          estimatedInliers = [(0, 0), (1, 1), (2, 2)], sampler = (2, 1),
          trail =
            [\<lparr>at_start = \<lparr>estimatedModel = 0, estimatedScore = 0,
                  estimatedInliers = [(0, 0), (1, 1), (2, 2)], sampler = (2, 0)\<rparr>,
               drawn = 2, copied_all = False, handed = Some [(0, 0), (1, 1)],
               sampler_after = (2, 1), candidates = [0], left_at = AtEstimatorFailure,
               at_end = \<lparr>estimatedModel = 0, estimatedScore = 0,
                  estimatedInliers = [(0, 0), (1, 1), (2, 2)], sampler = (2, 1)\<rparr>\<rparr>]\<rparr>"
  by code_simp

lemma ex_run_single:
  "run_single ex_memory ex_optimizer ex_sampler nat_gt ex_points [0, 1, 2] 0 0 ex_estimator
     ex_scoring []
   = Inr \<lparr>estimatedModel = 2, estimatedScore = 2, estimatedInliers = [0, 1, 2],
          sampler = (2, 3),
          trail =
            [\<lparr>at_start = \<lparr>estimatedModel = 0, estimatedScore = 0,
                  estimatedInliers = [0, 1, 2], sampler = (2, 0)\<rparr>,
               drawn = 1, copied_all = False, handed = Some [0],
               sampler_after = (2, 1), candidates = [], left_at = AtEstimatorFailure,
               at_end = \<lparr>estimatedModel = 0, estimatedScore = 0,
                  estimatedInliers = [0, 1, 2], sampler = (2, 1)\<rparr>\<rparr>,
             \<lparr>at_start = \<lparr>estimatedModel = 0, estimatedScore = 0,
                  estimatedInliers = [0, 1, 2], sampler = (2, 1)\<rparr>,
               drawn = 1, copied_all = False, handed = Some [1],
               sampler_after = (2, 2), candidates = [1], left_at = AfterScoring,
               at_end = \<lparr>estimatedModel = 1, estimatedScore = 1,
                  estimatedInliers = [0, 1, 2], sampler = (2, 2)\<rparr>\<rparr>,
             \<lparr>at_start = \<lparr>estimatedModel = 1, estimatedScore = 1,
                  estimatedInliers = [0, 1, 2], sampler = (2, 2)\<rparr>,
               drawn = 1, copied_all = False, handed = Some [2],
               sampler_after = (2, 3), candidates = [2], left_at = AfterScoring,
               at_end = \<lparr>estimatedModel = 2, estimatedScore = 2,
                  estimatedInliers = [0, 1, 2], sampler = (2, 3)\<rparr>\<rparr>]\<rparr>"
  by code_simp

lemma ex_run_multi_later:
  "run_multi ex_memory ex_optimizer ex_sampler_later nat_gt ex_points ex_points [] []
     [(0, 0), (1, 1), (2, 2)] 0 0 ex_estimator ex_scoring []
   = Inr \<lparr>estimatedModel = 2, estimatedScore = 2,
          estimatedInliers = [(0, 0), (1, 1), (2, 2)], sampler = (2, 4),
          trail =
            [\<lparr>at_start = \<lparr>estimatedModel = 0, estimatedScore = 0,
                  estimatedInliers = [(0, 0), (1, 1), (2, 2)], sampler = (2, 1)\<rparr>,
               drawn = 2, copied_all = False, handed = Some [(1, 1), (2, 2)],
               sampler_after = (2, 2), candidates = [0, 1], left_at = AfterScoring,
               at_end = \<lparr>estimatedModel = 1, estimatedScore = 1,
                  estimatedInliers = [(0, 0), (1, 1), (2, 2)], sampler = (2, 2)\<rparr>\<rparr>,
             \<lparr>at_start = \<lparr>estimatedModel = 1, estimatedScore = 1,
                  estimatedInliers = [(0, 0), (1, 1), (2, 2)], sampler = (2, 2)\<rparr>,
               drawn = 2, copied_all = False, handed = Some [(2, 2), (0, 0)],
               sampler_after = (2, 3), candidates = [1, 2], left_at = AfterScoring,
               at_end = \<lparr>estimatedModel = 2, estimatedScore = 2,
                  estimatedInliers = [(0, 0), (1, 1), (2, 2)], sampler = (2, 3)\<rparr>\<rparr>,
             \<lparr>at_start = \<lparr>estimatedModel = 2, estimatedScore = 2,
                  estimatedInliers = [(0, 0), (1, 1), (2, 2)], sampler = (2, 3)\<rparr>,
               drawn = 2, copied_all = False, handed = Some [(0, 0), (1, 1)],
               sampler_after = (2, 4), candidates = [2], left_at = AtEstimatorFailure,
               at_end = \<lparr>estimatedModel = 2, estimatedScore = 2,
                  estimatedInliers = [(0, 0), (1, 1), (2, 2)], sampler = (2, 4)\<rparr>\<rparr>]\<rparr>"
  by code_simp

lemma ex_run_single_two:
  "run_single ex_memory ex_optimizer ex_sampler nat_gt ex_points [0, 1] 0 0 ex_estimator
     (ex_scoring_with [0, 1] [(0, 0), (1, 1)]) []
   = Inr \<lparr>estimatedModel = 1, estimatedScore = 1, estimatedInliers = [0, 1],
          sampler = (1, 3),
          trail =
            [\<lparr>at_start = \<lparr>estimatedModel = 0, estimatedScore = 0,
                  estimatedInliers = [0, 1], sampler = (1, 0)\<rparr>,
               drawn = 1, copied_all = False, handed = Some [0],
               sampler_after = (1, 1), candidates = [], left_at = AtEstimatorFailure,
               at_end = \<lparr>estimatedModel = 0, estimatedScore = 0,
                  estimatedInliers = [0, 1], sampler = (1, 1)\<rparr>\<rparr>,
             \<lparr>at_start = \<lparr>estimatedModel = 0, estimatedScore = 0,
                  estimatedInliers = [0, 1], sampler = (1, 1)\<rparr>,
               drawn = 1, copied_all = False, handed = Some [1],
               sampler_after = (1, 2), candidates = [1], left_at = AfterScoring,
               at_end = \<lparr>estimatedModel = 1, estimatedScore = 1,
                  estimatedInliers = [0, 1], sampler = (1, 2)\<rparr>\<rparr>,
             \<lparr>at_start = \<lparr>estimatedModel = 1, estimatedScore = 1,
                  estimatedInliers = [0, 1], sampler = (1, 2)\<rparr>,
               drawn = 1, copied_all = False, handed = Some [0],
               sampler_after = (1, 3), candidates = [], left_at = AtEstimatorFailure,
               at_end = \<lparr>estimatedModel = 1, estimatedScore = 1,
                  estimatedInliers = [0, 1], sampler = (1, 3)\<rparr>\<rparr>]\<rparr>"
  by code_simp

lemma ex_run_multi_two:
  "run_multi ex_memory ex_optimizer ex_sampler nat_gt ex_points ex_points [] []
     [(0, 0), (1, 1)] 0 0 ex_estimator (ex_scoring_with [0, 1] [(0, 0), (1, 1)]) []
   = Inr \<lparr>estimatedModel = 0, estimatedScore = 0, estimatedInliers = [(0, 0), (1, 1)],
          sampler = (1, 0),
          trail =
            [\<lparr>at_start = \<lparr>estimatedModel = 0, estimatedScore = 0,
                  estimatedInliers = [(0, 0), (1, 1)], sampler = (1, 0)\<rparr>,
               drawn = 1, copied_all = False, handed = None,
               sampler_after = (1, 0), candidates = [], left_at = AtBreak,
               at_end = \<lparr>estimatedModel = 0, estimatedScore = 0,
                  estimatedInliers = [(0, 0), (1, 1)], sampler = (1, 0)\<rparr>\<rparr>]\<rparr>"
  by code_simp

lemma ex_run_multi_empty:
  "run_multi ex_memory ex_optimizer ex_sampler nat_gt ex_points ex_points [] []
     [] 0 0 ex_estimator (ex_scoring_with [] []) []
   = Inr \<lparr>estimatedModel = 0, estimatedScore = 0, estimatedInliers = [],
          sampler = (18446744073709551615, 3),
          trail =
            [\<lparr>at_start = \<lparr>estimatedModel = 0, estimatedScore = 0,
                  estimatedInliers = [], sampler = (18446744073709551615, 0)\<rparr>,
               drawn = 2, copied_all = False, handed = None,
               sampler_after = (18446744073709551615, 1), candidates = [],
               left_at = AtSamplerContinue,
               at_end = \<lparr>estimatedModel = 0, estimatedScore = 0,
                  estimatedInliers = [], sampler = (18446744073709551615, 1)\<rparr>\<rparr>,
             \<lparr>at_start = \<lparr>estimatedModel = 0, estimatedScore = 0,
                  estimatedInliers = [], sampler = (18446744073709551615, 1)\<rparr>,
               drawn = 2, copied_all = False, handed = None,
               sampler_after = (18446744073709551615, 2), candidates = [],
               left_at = AtSamplerContinue,
               at_end = \<lparr>estimatedModel = 0, estimatedScore = 0,
                  estimatedInliers = [], sampler = (18446744073709551615, 2)\<rparr>\<rparr>,
             \<lparr>at_start = \<lparr>estimatedModel = 0, estimatedScore = 0,
                  estimatedInliers = [], sampler = (18446744073709551615, 2)\<rparr>,
               drawn = 2, copied_all = False, handed = None,
               sampler_after = (18446744073709551615, 3), candidates = [],
               left_at = AtSamplerContinue,
               at_end = \<lparr>estimatedModel = 0, estimatedScore = 0,
                  estimatedInliers = [], sampler = (18446744073709551615, 3)\<rparr>\<rparr>]\<rparr>"
  by code_simp

lemma ex_run_single_empty:
  "run_single ex_memory ex_optimizer ex_sampler nat_gt ex_points [] 0 0 ex_estimator
     (ex_scoring_with [] []) []
   = Inr \<lparr>estimatedModel = 0, estimatedScore = 0, estimatedInliers = [],
          sampler = (18446744073709551615, 3),
          trail =
            [\<lparr>at_start = \<lparr>estimatedModel = 0, estimatedScore = 0,
                  estimatedInliers = [], sampler = (18446744073709551615, 0)\<rparr>,
               drawn = 1, copied_all = False, handed = None,
               sampler_after = (18446744073709551615, 1), candidates = [],
               left_at = AtSamplerContinue,
               at_end = \<lparr>estimatedModel = 0, estimatedScore = 0,
                  estimatedInliers = [], sampler = (18446744073709551615, 1)\<rparr>\<rparr>,
             \<lparr>at_start = \<lparr>estimatedModel = 0, estimatedScore = 0,
                  estimatedInliers = [], sampler = (18446744073709551615, 1)\<rparr>,
               drawn = 1, copied_all = False, handed = None,
               sampler_after = (18446744073709551615, 2), candidates = [],
               left_at = AtSamplerContinue,
               at_end = \<lparr>estimatedModel = 0, estimatedScore = 0,
                  estimatedInliers = [], sampler = (18446744073709551615, 2)\<rparr>\<rparr>,
             \<lparr>at_start = \<lparr>estimatedModel = 0, estimatedScore = 0,
                  estimatedInliers = [], sampler = (18446744073709551615, 2)\<rparr>,
               drawn = 1, copied_all = False, handed = None,
               sampler_after = (18446744073709551615, 3), candidates = [],
               left_at = AtSamplerContinue,
               at_end = \<lparr>estimatedModel = 0, estimatedScore = 0,
                  estimatedInliers = [], sampler = (18446744073709551615, 3)\<rparr>\<rparr>]\<rparr>"
  by code_simp

lemma ex_rescoring:
  "score_multi ex_scoring ex_points ex_points [] [] 0 ex_estimator []
     = (0, [(0, 0), (1, 1), (2, 2)])"
  "score ex_scoring ex_points 0 ex_estimator [] = (0, [0, 1, 2])"
  by (simp_all add: ex_scoring_def ex_scoring_with_def)

lemma ex_optimizer_fields:
  "maxIterations ex_optimizer = 3" "sampleSizeMultiplier ex_optimizer = 1"
  by (simp_all add: ex_optimizer_def setMaxIterations_def setSampleSizeMultiplier_def
      NestedRANSACOptimizer_new_def)

lemma ex_estimator_fields:
  "sampleSize ex_estimator = 1" "nonMinimalSampleSize ex_estimator = 2"
  by (simp_all add: ex_estimator_def)

section \<open>The claims\<close>

subsection \<open>C1: the returned score against the incoming score\<close>

text \<open>
  Claim C1.  The caller hands over \<^verbatim>\<open>kModel_\<close> together with its score: the score that
  the scoring object gives to \<^verbatim>\<open>kModel_\<close> is \<^verbatim>\<open>kScore_\<close> (or greater).  Then, when
  \<^verbatim>\<open>Score::operator>\<close> is transitive, the score returned by a call of either overload is
  greater than or equal to \<^verbatim>\<open>kScore_\<close>.
\<close>

theorem run_score_not_below_incoming:
  assumes "transp gt"
  shows "(at_least gt
            (fst (score_multi kScoring kDataSrc kDataDst kMatches kMatchScores kModel kEstimator
               incoming)) kScore
          \<longrightarrow> run_multi allocates this S gt kDataSrc kDataDst kMatches kMatchScores kInliers
                kModel kScore kEstimator kScoring incoming = Inr r
          \<longrightarrow> at_least gt (estimatedScore r) kScore)
       \<and> (at_least gt (fst (score kScoring kData kModel kEstimator incoming')) kScore
          \<longrightarrow> run_single allocates this S gt kData kInliers' kModel kScore kEstimator kScoring
                incoming' = Inr r'
          \<longrightarrow> at_least gt (estimatedScore r') kScore)"
proof (intro conjI impI)
  assume "at_least gt
            (fst (score_multi kScoring kDataSrc kDataDst kMatches kMatchScores kModel kEstimator
               incoming)) kScore"
    and "run_multi allocates this S gt kDataSrc kDataDst kMatches kMatchScores kInliers
                kModel kScore kEstimator kScoring incoming = Inr r"
  from at_least_trans [OF assms run_multi_at_least [OF assms this(2)] this(1)]
  show "at_least gt (estimatedScore r) kScore" .
next
  assume "at_least gt (fst (score kScoring kData kModel kEstimator incoming')) kScore"
    and "run_single allocates this S gt kData kInliers' kModel kScore kEstimator kScoring
                incoming' = Inr r'"
  from at_least_trans [OF assms run_single_at_least [OF assms this(2)] this(1)]
  show "at_least gt (estimatedScore r') kScore" .
qed

text \<open>
  The statement at the concrete collaborators: both calls come in with model 0 and its
  score 0 and return score 2.
\<close>

theorem run_score_witness:
  "transp nat_gt
   \<and> at_least nat_gt
       (fst (score_multi ex_scoring ex_points ex_points [] [] 0 ex_estimator [])) 0
   \<and> (case run_multi ex_memory ex_optimizer ex_sampler_later nat_gt ex_points ex_points [] []
             [(0, 0), (1, 1), (2, 2)] 0 0 ex_estimator ex_scoring [] of
        Inl f \<Rightarrow> False
      | Inr r \<Rightarrow> at_least nat_gt (estimatedScore r) 0 \<and> estimatedScore r = 2)
   \<and> at_least nat_gt (fst (score ex_scoring ex_points 0 ex_estimator [])) 0
   \<and> (case run_single ex_memory ex_optimizer ex_sampler nat_gt ex_points [0, 1, 2] 0 0
             ex_estimator ex_scoring [] of
        Inl f \<Rightarrow> False
      | Inr r \<Rightarrow> at_least nat_gt (estimatedScore r) 0 \<and> estimatedScore r = 2)"
proof -
  have multi_in: "at_least nat_gt
       (fst (score_multi ex_scoring ex_points ex_points [] [] 0 ex_estimator [])) 0"
    by (simp add: ex_rescoring at_least_def)
  have single_in: "at_least nat_gt (fst (score ex_scoring ex_points 0 ex_estimator [])) 0"
    by (simp add: ex_rescoring at_least_def)
  note multi = run_score_not_below_incoming
    [OF transp_nat_gt, THEN conjunct1, THEN mp, THEN mp, OF multi_in ex_run_multi_later]
  note single = run_score_not_below_incoming
    [OF transp_nat_gt, THEN conjunct2, THEN mp, THEN mp, OF single_in ex_run_single]
  from multi single multi_in single_in transp_nat_gt show ?thesis
    by (simp add: ex_run_multi_later ex_run_single)
qed

subsection \<open>C2: a failing non-minimal estimation\<close>

text \<open>
  Claim C2 at a concrete input.  With three iterations allowed, the estimator fails on
  the first sample (it starts with point 0) and would succeed on the next ones.  The
  multi-match overload leaves \<^verbatim>\<open>run\<close> in the first iteration (the \<^verbatim>\<open>return\<close> of line
  180) and hands back the input model; the single-match overload on the same
  collaborators goes on (the \<^verbatim>\<open>continue\<close> of line 287), runs all three iterations and
  adopts model 2.
\<close>

theorem estimator_failure_ends_multi_run:
  "run_multi ex_memory ex_optimizer ex_sampler nat_gt ex_points ex_points [] []
     [(0, 0), (1, 1), (2, 2)] 0 0 ex_estimator ex_scoring []
   = Inr \<lparr>estimatedModel = 0, estimatedScore = 0,
          estimatedInliers = [(0, 0), (1, 1), (2, 2)], sampler = (2, 1),
          trail =
            [\<lparr>at_start = \<lparr>estimatedModel = 0, estimatedScore = 0,
                  estimatedInliers = [(0, 0), (1, 1), (2, 2)], sampler = (2, 0)\<rparr>,
               drawn = 2, copied_all = False, handed = Some [(0, 0), (1, 1)],
               sampler_after = (2, 1), candidates = [0], left_at = AtEstimatorFailure,
               at_end = \<lparr>estimatedModel = 0, estimatedScore = 0,
                  estimatedInliers = [(0, 0), (1, 1), (2, 2)], sampler = (2, 1)\<rparr>\<rparr>]\<rparr>
   \<and> maxIterations ex_optimizer = 3
   \<and> run_single ex_memory ex_optimizer ex_sampler nat_gt ex_points [0, 1, 2] 0 0 ex_estimator
       ex_scoring []
   = Inr \<lparr>estimatedModel = 2, estimatedScore = 2, estimatedInliers = [0, 1, 2],
          sampler = (2, 3),
          trail =
            [\<lparr>at_start = \<lparr>estimatedModel = 0, estimatedScore = 0,
                  estimatedInliers = [0, 1, 2], sampler = (2, 0)\<rparr>,
               drawn = 1, copied_all = False, handed = Some [0],
               sampler_after = (2, 1), candidates = [], left_at = AtEstimatorFailure,
               at_end = \<lparr>estimatedModel = 0, estimatedScore = 0,
                  estimatedInliers = [0, 1, 2], sampler = (2, 1)\<rparr>\<rparr>,
             \<lparr>at_start = \<lparr>estimatedModel = 0, estimatedScore = 0,
                  estimatedInliers = [0, 1, 2], sampler = (2, 1)\<rparr>,
               drawn = 1, copied_all = False, handed = Some [1],
               sampler_after = (2, 2), candidates = [1], left_at = AfterScoring,
               at_end = \<lparr>estimatedModel = 1, estimatedScore = 1,
                  estimatedInliers = [0, 1, 2], sampler = (2, 2)\<rparr>\<rparr>,
             \<lparr>at_start = \<lparr>estimatedModel = 1, estimatedScore = 1,
                  estimatedInliers = [0, 1, 2], sampler = (2, 2)\<rparr>,
               drawn = 1, copied_all = False, handed = Some [2],
               sampler_after = (2, 3), candidates = [2], left_at = AfterScoring,
               at_end = \<lparr>estimatedModel = 2, estimatedScore = 2,
                  estimatedInliers = [0, 1, 2], sampler = (2, 3)\<rparr>\<rparr>]\<rparr>"
  using ex_run_multi ex_run_single ex_optimizer_fields(1)
  by simp

subsection \<open>C3: an inlier set too small for a non-minimal sample\<close>

text \<open>
  Claim C3 at a concrete input.  The input model 0 has score 0 and the two inliers 0 and
  1, and the estimator asks for 2 points in a non-minimal sample, so that the size of the
  sample, 2 - 1 = 1, is below it.  The multi-match overload breaks in its first iteration
  and returns the input.  The single-match overload compares with the minimal
  \<^verbatim>\<open>sampleSize()\<close> = 1 instead (line 255), draws samples of one point, hands them to
  \<^verbatim>\<open>estimateModelNonminimal\<close> and returns model 1 with score 1.
\<close>

theorem too_small_pool_single_match_optimizes:
  "score (ex_scoring_with [0, 1] [(0, 0), (1, 1)]) ex_points 0 ex_estimator [] = (0, [0, 1])
   \<and> nonMinimalSampleSize ex_estimator = 2
   \<and> run_single ex_memory ex_optimizer ex_sampler nat_gt ex_points [0, 1] 0 0 ex_estimator
       (ex_scoring_with [0, 1] [(0, 0), (1, 1)]) []
     = Inr \<lparr>estimatedModel = 1, estimatedScore = 1, estimatedInliers = [0, 1],
            sampler = (1, 3),
            trail =
              [\<lparr>at_start = \<lparr>estimatedModel = 0, estimatedScore = 0,
                    estimatedInliers = [0, 1], sampler = (1, 0)\<rparr>,
                 drawn = 1, copied_all = False, handed = Some [0],
                 sampler_after = (1, 1), candidates = [], left_at = AtEstimatorFailure,
                 at_end = \<lparr>estimatedModel = 0, estimatedScore = 0,
                    estimatedInliers = [0, 1], sampler = (1, 1)\<rparr>\<rparr>,
               \<lparr>at_start = \<lparr>estimatedModel = 0, estimatedScore = 0,
                    estimatedInliers = [0, 1], sampler = (1, 1)\<rparr>,
                 drawn = 1, copied_all = False, handed = Some [1],
                 sampler_after = (1, 2), candidates = [1], left_at = AfterScoring,
                 at_end = \<lparr>estimatedModel = 1, estimatedScore = 1,
                    estimatedInliers = [0, 1], sampler = (1, 2)\<rparr>\<rparr>,
               \<lparr>at_start = \<lparr>estimatedModel = 1, estimatedScore = 1,
                    estimatedInliers = [0, 1], sampler = (1, 2)\<rparr>,
                 drawn = 1, copied_all = False, handed = Some [0],
                 sampler_after = (1, 3), candidates = [], left_at = AtEstimatorFailure,
                 at_end = \<lparr>estimatedModel = 1, estimatedScore = 1,
                    estimatedInliers = [0, 1], sampler = (1, 3)\<rparr>\<rparr>]\<rparr>
   \<and> score_multi (ex_scoring_with [0, 1] [(0, 0), (1, 1)]) ex_points ex_points [] [] 0
       ex_estimator [] = (0, [(0, 0), (1, 1)])
   \<and> run_multi ex_memory ex_optimizer ex_sampler nat_gt ex_points ex_points [] []
       [(0, 0), (1, 1)] 0 0 ex_estimator (ex_scoring_with [0, 1] [(0, 0), (1, 1)]) []
     = Inr \<lparr>estimatedModel = 0, estimatedScore = 0, estimatedInliers = [(0, 0), (1, 1)],
            sampler = (1, 0),
            trail =
              [\<lparr>at_start = \<lparr>estimatedModel = 0, estimatedScore = 0,
                    estimatedInliers = [(0, 0), (1, 1)], sampler = (1, 0)\<rparr>,
                 drawn = 1, copied_all = False, handed = None,
                 sampler_after = (1, 0), candidates = [], left_at = AtBreak,
                 at_end = \<lparr>estimatedModel = 0, estimatedScore = 0,
                    estimatedInliers = [(0, 0), (1, 1)], sampler = (1, 0)\<rparr>\<rparr>]\<rparr>"
  using ex_run_single_two ex_run_multi_two ex_estimator_fields(2)
  by (simp add: ex_scoring_with_def)

subsection \<open>C4: the size of the sample of an iteration\<close>

text \<open>
  Claim C4 at a concrete input: multiplier 1, minimal sample size 1, non-minimal sample
  size 2 and three inliers.  Every iteration of the multi-match overload draws
  min (1 * 2) (3 - 1) = 2 matches.  Every iteration of the single-match overload draws
  one index, because it multiplies by \<^verbatim>\<open>sampleSize()\<close> (line 230); one is below the
  non-minimal sample size, and yet no iteration breaks (line 255 compares with
  \<^verbatim>\<open>sampleSize()\<close>): all three run.
\<close>

theorem single_match_draws_minimal_sample_size:
  "sampleSizeMultiplier ex_optimizer = 1
   \<and> sampleSize ex_estimator = 1
   \<and> nonMinimalSampleSize ex_estimator = 2
   \<and> (case run_single ex_memory ex_optimizer ex_sampler nat_gt ex_points [0, 1, 2] 0 0
             ex_estimator ex_scoring [] of
        Inl f \<Rightarrow> False
      | Inr r \<Rightarrow> length (trail r) = 3
          \<and> list_all (\<lambda>n. pool n = 3 \<and> drawn n = 1
                \<and> min (sampleSizeMultiplier ex_optimizer * nonMinimalSampleSize ex_estimator)
                    (pool n - 1) = 2
                \<and> drawn n < nonMinimalSampleSize ex_estimator
                \<and> left_at n \<noteq> AtBreak) (trail r))
   \<and> (case run_multi ex_memory ex_optimizer ex_sampler_later nat_gt ex_points ex_points [] []
             [(0, 0), (1, 1), (2, 2)] 0 0 ex_estimator ex_scoring [] of
        Inl f \<Rightarrow> False
      | Inr r \<Rightarrow> length (trail r) = 3
          \<and> list_all (\<lambda>n. pool n = 3 \<and> drawn n = 2
                \<and> min (sampleSizeMultiplier ex_optimizer * nonMinimalSampleSize ex_estimator)
                    (pool n - 1) = 2
                \<and> left_at n \<noteq> AtBreak) (trail r))"
  by (simp add: ex_run_single ex_run_multi_later ex_optimizer_fields ex_estimator_fields
      pool_def vsize_def)

subsection \<open>C5: when a candidate replaces the best model\<close>



subsection \<open>C6: the default settings\<close>

text \<open>
  Claim C6.  A default-constructed \<^verbatim>\<open>RANSACSettings\<close> has 1000 minimal and 5000 maximal
  iterations, 4 cores, inlier threshold 1.5, confidence 0.99, MAGSAC scoring, the uniform
  sampler, nested RANSAC as local and IRLS as final optimization, the RANSAC termination
  criterion, and 50 iterations with sample size multiplier 7 in its local optimization
  settings; a default-constructed \<^verbatim>\<open>NestedRANSACOptimizer\<close> has 50 iterations and
  multiplier 7 as well.
\<close>

theorem default_settings:
  "minIterations RANSACSettings_default = 1000
   \<and> rs_maxIterations RANSACSettings_default = 5000
   \<and> coreNumber RANSACSettings_default = 4
   \<and> inlierThreshold RANSACSettings_default = 1.5
   \<and> confidence RANSACSettings_default = 0.99
   \<and> scoring RANSACSettings_default = Scoring_MAGSAC
   \<and> samplerType RANSACSettings_default = Sampler_Uniform
   \<and> localOptimization RANSACSettings_default = LO_NestedRANSAC
   \<and> finalOptimization RANSACSettings_default = LO_IRLS
   \<and> terminationCriterion RANSACSettings_default = Termination_RANSAC
   \<and> lo_maxIterations (localOptimizationSettings RANSACSettings_default) = 50
   \<and> lo_sampleSizeMultiplier (localOptimizationSettings RANSACSettings_default) = 7
   \<and> maxIterations NestedRANSACOptimizer_new = 50
   \<and> sampleSizeMultiplier NestedRANSACOptimizer_new = 7"
  by (simp add: RANSACSettings_default_def LocalOptimizationSettings_default_def
      NestedRANSACOptimizer_new_def)

subsection \<open>C7: the number of iterations\<close>

text \<open>
  Claim C7.  A call of either overload runs the body of the inner loop at most
  \<^verbatim>\<open>maxIterations\<close> times (every execution of the body leaves one note), and
  \<^verbatim>\<open>maxIterations\<close> is 50 after construction.  The loop itself is the function
  \<open>inner_loop\<close>, which is total: its counter goes up to \<^verbatim>\<open>maxIterations\<close> and never wraps.
\<close>

theorem inner_loop_bounded:
  "(run_multi allocates this S gt kDataSrc kDataDst kMatches kMatchScores kInliers kModel kScore
        kEstimator kScoring incoming = Inr r
      \<longrightarrow> length (trail r) \<le> unat (maxIterations this))
   \<and> (run_single allocates this S gt kData kInliers' kModel kScore kEstimator kScoring
        incoming' = Inr r'
      \<longrightarrow> length (trail r') \<le> unat (maxIterations this))
   \<and> unat (maxIterations NestedRANSACOptimizer_new) = 50"
  using run_multi_count run_single_count
  by (auto simp: NestedRANSACOptimizer_new_def)

text \<open>
  The statement at the concrete collaborators, with three iterations allowed.
\<close>

theorem inner_loop_bounded_witness:
  "(case run_multi ex_memory ex_optimizer ex_sampler nat_gt ex_points ex_points [] []
          [(0, 0), (1, 1), (2, 2)] 0 0 ex_estimator ex_scoring [] of
      Inl f \<Rightarrow> False
    | Inr r \<Rightarrow> length (trail r) \<le> unat (maxIterations ex_optimizer))
   \<and> (case run_single ex_memory ex_optimizer ex_sampler nat_gt ex_points [0, 1, 2] 0 0
          ex_estimator ex_scoring [] of
      Inl f \<Rightarrow> False
    | Inr r \<Rightarrow> length (trail r) \<le> unat (maxIterations ex_optimizer))"
proof -
  note multi = inner_loop_bounded [THEN conjunct1, THEN mp, OF ex_run_multi]
  note single = inner_loop_bounded [THEN conjunct2, THEN conjunct1, THEN mp, OF ex_run_single]
  from multi single show ?thesis
    by (simp add: ex_run_multi ex_run_single)
qed

subsection \<open>C8: the incoming score is not read\<close>

text \<open>
  Claim C8.  The result of \<^verbatim>\<open>run\<close> does not depend on the incoming score: two calls of
  either overload that differ in \<^verbatim>\<open>kScore_\<close> only return the same model, score and inliers
  (the whole final state is the same).  The sampler starts from the same constructed
  state in both calls.
\<close>

theorem run_ignores_incoming_score:
  "run_multi allocates this S gt kDataSrc kDataDst kMatches kMatchScores kInliers kModel kScore
       kEstimator kScoring incoming
     = run_multi allocates this S gt kDataSrc kDataDst kMatches kMatchScores kInliers kModel
         kScore' kEstimator kScoring incoming
   \<and> run_single allocates this S gt kData kInliers' kModel kScore kEstimator kScoring incoming'
     = run_single allocates this S gt kData kInliers' kModel kScore' kEstimator kScoring
         incoming'"
  by (simp add: run_multi_def run_single_def)

subsection \<open>C9: the empty inlier set and the wrap-around\<close>

text \<open>
  Claim C9 at a concrete input: the rescoring of the input model finds no inlier, the
  multiplier is 1, the minimal sample size 1 and the non-minimal sample size 2.  In both
  overloads \<^verbatim>\<open>estimatedInliers_.size() - 1\<close> is 18446744073709551615 and the sampler is
  initialized with it.  In the multi-match overload \<^verbatim>\<open>currentSampleSize\<close> is 1 * 2 = 2 in
  every iteration, and no iteration breaks.  In the single-match overload, which
  multiplies by \<^verbatim>\<open>sampleSize()\<close> (line 230), it is 1: not 1 * 2, and below the non-minimal
  sample size.
\<close>

theorem empty_pool_single_match_sample_size:
  "score (ex_scoring_with [] []) ex_points 0 ex_estimator [] = (0, [])
   \<and> score_multi (ex_scoring_with [] []) ex_points ex_points [] [] 0 ex_estimator [] = (0, [])
   \<and> sampleSizeMultiplier ex_optimizer * nonMinimalSampleSize ex_estimator = 2
   \<and> nonMinimalSampleSize ex_estimator = 2
   \<and> (case run_single ex_memory ex_optimizer ex_sampler nat_gt ex_points [] 0 0 ex_estimator
             (ex_scoring_with [] []) [] of
        Inl f \<Rightarrow> False
      | Inr r \<Rightarrow> length (trail r) = 3
          \<and> list_all (\<lambda>n. estimatedInliers (at_start n) = []
                \<and> pool n - 1 = 18446744073709551615
                \<and> drawn n = 1
                \<and> drawn n < nonMinimalSampleSize ex_estimator
                \<and> left_at n = AtSamplerContinue) (trail r)
          \<and> sampler (at_start (hd (trail r)))
              = initialize ex_sampler 18446744073709551615 (constructed ex_sampler))
   \<and> (case run_multi ex_memory ex_optimizer ex_sampler nat_gt ex_points ex_points [] [] [] 0 0
             ex_estimator (ex_scoring_with [] []) [] of
        Inl f \<Rightarrow> False
      | Inr r \<Rightarrow> length (trail r) = 3
          \<and> list_all (\<lambda>n. estimatedInliers (at_start n) = []
                \<and> pool n - 1 = 18446744073709551615
                \<and> drawn n = 2
                \<and> left_at n = AtSamplerContinue) (trail r)
          \<and> sampler (at_start (hd (trail r)))
              = initialize ex_sampler 18446744073709551615 (constructed ex_sampler))"
  unfolding ex_run_single_empty ex_run_multi_empty
  by (simp add: ex_optimizer_fields ex_estimator_fields ex_scoring_with_def ex_sampler_def
      ex_sampler_from_def pool_def vsize_def)

subsection \<open>C10: the branch that copies all inliers\<close>

text \<open>
  Claim C10, as the code has it.  When the sample size that the overload compares with
  at the break is at least 1, no iteration of a call takes the branch that copies all
  inliers.  In every iteration that gets past the break, the sample size is at most the
  number of inliers minus one in \<^verbatim>\<open>size_t\<close> arithmetic and differs from the number of
  inliers, and what goes to the estimator are the inliers at the indices that the sampler
  wrote, if it said yes, and nothing otherwise.  When there is an inlier at all, the
  sample size is below the number of inliers, and a sample that goes to the estimator
  has that many elements, fewer than there are inliers, all of them inliers.  When
  \<^verbatim>\<open>estimatedInliers_.size()\<close> is 0, the sample size is above it.
\<close>

theorem copy_branch_never_taken:
  "(0 < nonMinimalSampleSize kEstimator \<longrightarrow>
    run_multi allocates this S gt kDataSrc kDataDst kMatches kMatchScores kInliers kModel kScore
      kEstimator kScoring incoming = Inr r \<longrightarrow>
    (\<forall>n \<in> set (trail r). \<not> copied_all n
       \<and> (left_at n \<noteq> AtBreak \<longrightarrow>
            drawn n \<le> pool n - 1
          \<and> drawn n \<noteq> pool n
          \<and> handed n
              = (if fst (sample S (pool n) (drawn n) (sampler (at_start n)))
                 then Some (map (\<lambda>idx. estimatedInliers (at_start n) ! unat idx)
                        (fst (snd (sample S (pool n) (drawn n) (sampler (at_start n))))))
                 else None)
          \<and> (pool n = 0 \<longrightarrow> pool n < drawn n)
          \<and> (pool n \<noteq> 0 \<longrightarrow>
               drawn n < pool n
             \<and> (\<forall>sel. handed n = Some sel \<longrightarrow>
                   length sel = unat (drawn n)
                 \<and> length sel < length (estimatedInliers (at_start n))
                 \<and> set sel \<subseteq> set (estimatedInliers (at_start n)))))))
   \<and> (0 < sampleSize kEstimator \<longrightarrow>
    run_single allocates this S gt kData kInliers' kModel kScore kEstimator kScoring incoming'
      = Inr r' \<longrightarrow>
    (\<forall>n \<in> set (trail r'). \<not> copied_all n
       \<and> (left_at n \<noteq> AtBreak \<longrightarrow>
            drawn n \<le> pool n - 1
          \<and> drawn n \<noteq> pool n
          \<and> handed n
              = (if fst (sample S (pool n) (drawn n) (sampler (at_start n)))
                 then Some (map (\<lambda>idx. estimatedInliers (at_start n) ! unat idx)
                        (fst (snd (sample S (pool n) (drawn n) (sampler (at_start n))))))
                 else None)
          \<and> (pool n = 0 \<longrightarrow> pool n < drawn n)
          \<and> (pool n \<noteq> 0 \<longrightarrow>
               drawn n < pool n
             \<and> (\<forall>sel. handed n = Some sel \<longrightarrow>
                   length sel = unat (drawn n)
                 \<and> length sel < length (estimatedInliers (at_start n))
                 \<and> set sel \<subseteq> set (estimatedInliers (at_start n)))))))"
proof -
  have multi: "(0 < nonMinimalSampleSize kEstimator \<longrightarrow>
    run_multi allocates this S gt kDataSrc kDataDst kMatches kMatchScores kInliers kModel kScore
      kEstimator kScoring incoming = Inr r \<longrightarrow>
    (\<forall>n \<in> set (trail r). \<not> copied_all n
       \<and> (left_at n \<noteq> AtBreak \<longrightarrow>
            drawn n \<le> pool n - 1
          \<and> drawn n \<noteq> pool n
          \<and> handed n
              = (if fst (sample S (pool n) (drawn n) (sampler (at_start n)))
                 then Some (map (\<lambda>idx. estimatedInliers (at_start n) ! unat idx)
                        (fst (snd (sample S (pool n) (drawn n) (sampler (at_start n))))))
                 else None)
          \<and> (pool n = 0 \<longrightarrow> pool n < drawn n)
          \<and> (pool n \<noteq> 0 \<longrightarrow>
               drawn n < pool n
             \<and> (\<forall>sel. handed n = Some sel \<longrightarrow>
                   length sel = unat (drawn n)
                 \<and> length sel < length (estimatedInliers (at_start n))
                 \<and> set sel \<subseteq> set (estimatedInliers (at_start n)))))))"
  proof (intro impI ballI)
    fix n
    assume lowest: "0 < nonMinimalSampleSize kEstimator"
      and "run_multi allocates this S gt kDataSrc kDataDst kMatches kMatchScores kInliers kModel
        kScore kEstimator kScoring incoming = Inr r"
      and "n \<in> set (trail r)"
    with run_multi_sampling [OF this(2)]
    have "note_ok (sampleSizeMultiplier this * nonMinimalSampleSize kEstimator)
            (nonMinimalSampleSize kEstimator) n"
      and "left_at n \<noteq> AtBreak \<longrightarrow>
             select_sample S (estimatedInliers (at_start n)) (drawn n) (sampler (at_start n))
               = Inr (copied_all n, handed n, sampler_after n)"
      by (simp_all add: list_all_iff)
    from note_sampled [OF this(1) lowest this(2)]
    show "\<not> copied_all n
         \<and> (left_at n \<noteq> AtBreak \<longrightarrow>
              drawn n \<le> pool n - 1
            \<and> drawn n \<noteq> pool n
            \<and> handed n
                = (if fst (sample S (pool n) (drawn n) (sampler (at_start n)))
                   then Some (map (\<lambda>idx. estimatedInliers (at_start n) ! unat idx)
                          (fst (snd (sample S (pool n) (drawn n) (sampler (at_start n))))))
                   else None)
            \<and> (pool n = 0 \<longrightarrow> pool n < drawn n)
            \<and> (pool n \<noteq> 0 \<longrightarrow>
                 drawn n < pool n
               \<and> (\<forall>sel. handed n = Some sel \<longrightarrow>
                     length sel = unat (drawn n)
                   \<and> length sel < length (estimatedInliers (at_start n))
                   \<and> set sel \<subseteq> set (estimatedInliers (at_start n)))))" .
  qed
  have single: "(0 < sampleSize kEstimator \<longrightarrow>
    run_single allocates this S gt kData kInliers' kModel kScore kEstimator kScoring incoming'
      = Inr r' \<longrightarrow>
    (\<forall>n \<in> set (trail r'). \<not> copied_all n
       \<and> (left_at n \<noteq> AtBreak \<longrightarrow>
            drawn n \<le> pool n - 1
          \<and> drawn n \<noteq> pool n
          \<and> handed n
              = (if fst (sample S (pool n) (drawn n) (sampler (at_start n)))
                 then Some (map (\<lambda>idx. estimatedInliers (at_start n) ! unat idx)
                        (fst (snd (sample S (pool n) (drawn n) (sampler (at_start n))))))
                 else None)
          \<and> (pool n = 0 \<longrightarrow> pool n < drawn n)
          \<and> (pool n \<noteq> 0 \<longrightarrow>
               drawn n < pool n
             \<and> (\<forall>sel. handed n = Some sel \<longrightarrow>
                   length sel = unat (drawn n)
                 \<and> length sel < length (estimatedInliers (at_start n))
                 \<and> set sel \<subseteq> set (estimatedInliers (at_start n)))))))"
  proof (intro impI ballI)
    fix n
    assume lowest: "0 < sampleSize kEstimator"
      and "run_single allocates this S gt kData kInliers' kModel kScore kEstimator kScoring
        incoming' = Inr r'"
      and "n \<in> set (trail r')"
    with run_single_sampling [OF this(2)]
    have "note_ok (sampleSizeMultiplier this * sampleSize kEstimator) (sampleSize kEstimator) n"
      and "left_at n \<noteq> AtBreak \<longrightarrow>
             select_sample S (estimatedInliers (at_start n)) (drawn n) (sampler (at_start n))
               = Inr (copied_all n, handed n, sampler_after n)"
      by (simp_all add: list_all_iff)
    from note_sampled [OF this(1) lowest this(2)]
    show "\<not> copied_all n
         \<and> (left_at n \<noteq> AtBreak \<longrightarrow>
              drawn n \<le> pool n - 1
            \<and> drawn n \<noteq> pool n
            \<and> handed n
                = (if fst (sample S (pool n) (drawn n) (sampler (at_start n)))
                   then Some (map (\<lambda>idx. estimatedInliers (at_start n) ! unat idx)
                          (fst (snd (sample S (pool n) (drawn n) (sampler (at_start n))))))
                   else None)
            \<and> (pool n = 0 \<longrightarrow> pool n < drawn n)
            \<and> (pool n \<noteq> 0 \<longrightarrow>
                 drawn n < pool n
               \<and> (\<forall>sel. handed n = Some sel \<longrightarrow>
                     length sel = unat (drawn n)
                   \<and> length sel < length (estimatedInliers (at_start n))
                   \<and> set sel \<subseteq> set (estimatedInliers (at_start n)))))" .
  qed
  from multi single show ?thesis
    by (rule conjI)
qed

text \<open>
  The statement at the concrete collaborators: every iteration gets past the break,
  copies nothing, and hands the estimator fewer inliers than there are, at the indices
  the sampler wrote.
\<close>

theorem copy_branch_witness:
  "0 < nonMinimalSampleSize ex_estimator
   \<and> (case run_multi ex_memory ex_optimizer ex_sampler_later nat_gt ex_points ex_points [] []
            [(0, 0), (1, 1), (2, 2)] 0 0 ex_estimator ex_scoring [] of
        Inl f \<Rightarrow> False
      | Inr r \<Rightarrow>
          list_all (\<lambda>n. \<not> copied_all n \<and> left_at n \<noteq> AtBreak \<and> pool n \<noteq> 0
              \<and> drawn n < pool n
              \<and> (case handed n of
                   None \<Rightarrow> False
                 | Some sel \<Rightarrow> length sel = unat (drawn n)
                     \<and> length sel < length (estimatedInliers (at_start n))
                     \<and> set sel \<subseteq> set (estimatedInliers (at_start n))))
            (trail r)
        \<and> map handed (trail r)
            = [Some [(1, 1), (2, 2)], Some [(2, 2), (0, 0)], Some [(0, 0), (1, 1)]])
   \<and> 0 < sampleSize ex_estimator
   \<and> (case run_single ex_memory ex_optimizer ex_sampler nat_gt ex_points [0, 1, 2] 0 0
            ex_estimator ex_scoring [] of
        Inl f \<Rightarrow> False
      | Inr r \<Rightarrow>
          list_all (\<lambda>n. \<not> copied_all n \<and> left_at n \<noteq> AtBreak \<and> pool n \<noteq> 0
              \<and> drawn n < pool n
              \<and> (case handed n of
                   None \<Rightarrow> False
                 | Some sel \<Rightarrow> length sel = unat (drawn n)
                     \<and> length sel < length (estimatedInliers (at_start n))
                     \<and> set sel \<subseteq> set (estimatedInliers (at_start n))))
            (trail r)
        \<and> map handed (trail r) = [Some [0], Some [1], Some [2]])"
proof -
  note multi = copy_branch_never_taken
    [THEN conjunct1, THEN mp, THEN mp, OF ex_estimator_sizes(1) ex_run_multi_later]
  note single = copy_branch_never_taken
    [THEN conjunct2, THEN mp, THEN mp, OF ex_estimator_sizes(2) ex_run_single]
  from multi single ex_estimator_sizes show ?thesis
    by (simp add: ex_run_multi_later ex_run_single pool_def vsize_def)
qed

text \<open>
  Claim C10 as it is written fails on an empty inlier set.  In the multi-match call
  below the rescoring of the input model finds no inlier and the non-minimal sample size
  is 2.  The first iteration gets past the break with a sample size of 2, which is not
  at most the number of inliers minus one: there is no inlier, and the iteration samples
  nothing.
\<close>

theorem copy_branch_counterexample:
  "0 < nonMinimalSampleSize ex_estimator
   \<and> (case run_multi ex_memory ex_optimizer ex_sampler nat_gt ex_points ex_points [] [] [] 0 0
            ex_estimator (ex_scoring_with [] []) [] of
        Inl f \<Rightarrow> False
      | Inr r \<Rightarrow> trail r \<noteq> []
          \<and> left_at (hd (trail r)) \<noteq> AtBreak
          \<and> estimatedInliers (at_start (hd (trail r))) = []
          \<and> drawn (hd (trail r)) = 2
          \<and> \<not> unat (drawn (hd (trail r))) < length (estimatedInliers (at_start (hd (trail r))))
          \<and> handed (hd (trail r)) = None)"
  by (simp add: ex_run_multi_empty ex_estimator_fields)

end
